theory Spec2Isabelle
  imports Main "HOL-Library.Sublist"
begin

section \<open>Conductor plugins: credential store, fetch envelopes and tool definitions\<close>

text \<open>
  The plugins are TypeScript classes. Each one holds a \<^verbatim>\<open>Keychain\<close> bound to the host's
  configuration directory and talks to its service through one private fetch helper.
  JavaScript strings are modelled as HOL strings, one \<^typ>\<open>char\<close> per UTF-16 code unit, which
  covers the code units below 256; \<^const>\<open>length\<close> is then the \<^verbatim>\<open>.length\<close> of the source.
\<close>

subsection \<open>JavaScript values\<close>

datatype json =
    JNull
  | JBool bool
  | JNum string
  | JStr string
  | JArr "json list"
  | JObj "(string \<times> json) list"

text \<open>
  A number is held as the string \<^verbatim>\<open>String\<close> prints for it (\<^verbatim>\<open>42\<close>, \<^verbatim>\<open>0.5\<close>,
  \<^verbatim>\<open>1e+21\<close>); zero and negative zero both print as \<^verbatim>\<open>0\<close>. A value that may be
  \<^verbatim>\<open>undefined\<close> is a \<^typ>\<open>json option\<close>, with \<^const>\<open>None\<close> for \<^verbatim>\<open>undefined\<close>.
\<close>

fun truthy :: "json \<Rightarrow> bool" where
  "truthy JNull = False"
| "truthy (JBool b) = b"
| "truthy (JNum n) = (n \<noteq> ''0'' \<and> n \<noteq> ''NaN'')"
| "truthy (JStr s) = (s \<noteq> [])"
| "truthy (JArr xs) = True"
| "truthy (JObj kvs) = True"

text \<open>\<^verbatim>\<open>!token\<close> on a \<^verbatim>\<open>string | null\<close>: the empty string and \<^verbatim>\<open>null\<close> are both falsy.\<close>

definition falsy_str :: "string option \<Rightarrow> bool" where
  "falsy_str v = (case v of None \<Rightarrow> True | Some s \<Rightarrow> s = [])"

subsection \<open>String helpers of the platform\<close>

text \<open>\<^verbatim>\<open>s.endsWith(suf)\<close>.\<close>

definition endsWith :: "string \<Rightarrow> string \<Rightarrow> bool" where
  "endsWith s suf = (length suf \<le> length s \<and> drop (length s - length suf) s = suf)"

text \<open>\<^verbatim>\<open>s.replace(/\/$/, '')\<close>: the pattern matches one slash at the very end of the input.\<close>

definition stripTrailingSlash :: "string \<Rightarrow> string" where
  "stripTrailingSlash s = (if s \<noteq> [] \<and> last s = CHR ''/'' then butlast s else s)"

subsection \<open>The n8n base URL\<close>

text \<open>
  The pure part of \<^verbatim>\<open>N8nPlugin.getConfig\<close>: \<^verbatim>\<open>rawUrl\<close> is what the keychain holds under
  \<^verbatim>\<open>n8n / base_url\<close>, absent when nothing is stored.
  \<^verbatim>\<open>let baseUrl = (rawUrl ?? 'http://localhost:5678').replace(/\/$/, '');
  if (!baseUrl.endsWith('/api/v1')) baseUrl = `${baseUrl}/api/v1`;\<close>
\<close>

definition normaliseBaseUrl :: "string option \<Rightarrow> string" where
  "normaliseBaseUrl rawUrl =
     (let baseUrl = stripTrailingSlash (case rawUrl of None \<Rightarrow> ''http://localhost:5678'' | Some u \<Rightarrow> u)
      in if \<not> endsWith baseUrl ''/api/v1'' then baseUrl @ ''/api/v1'' else baseUrl)"


subsection \<open>Printing numbers and values\<close>

text \<open>Decimal digits of a number, as a template literal prints it.\<close>

function show_pos :: "int \<Rightarrow> string" where
  "show_pos i =
     (if i < 10 then [char_of (48 + i)]
      else show_pos (i div 10) @ [char_of (48 + i mod 10)])"
  by pat_completeness auto
termination
  by (relation "measure nat") auto

declare show_pos.simps [simp del]

definition show_int :: "int \<Rightarrow> string" where
  "show_int i = (if i < 0 then CHR ''-'' # show_pos (- i) else show_pos i)"

definition show_nat :: "nat \<Rightarrow> string" where
  "show_nat n = show_pos (int n)"

fun join :: "string \<Rightarrow> string list \<Rightarrow> string" where
  "join sep [] = []"
| "join sep [x] = x"
| "join sep (x # y # ys) = x @ sep @ join sep (y # ys)"

text \<open>The line feed of a string literal's \<^verbatim>\<open>\n\<close>.\<close>

definition newline :: string where
  "newline = [char_of (10::nat)]"

text \<open>
  \<^verbatim>\<open>String(v)\<close>, the conversion a template literal applies to a parsed JSON value: an array
  prints its elements joined by commas, with \<^verbatim>\<open>null\<close> elements empty, and an object prints
  as \<^verbatim>\<open>[object Object]\<close>.
\<close>

fun js_String :: "json \<Rightarrow> string" and js_elems :: "json list \<Rightarrow> string list" where
  "js_String JNull = ''null''"
| "js_String (JBool b) = (if b then ''true'' else ''false'')"
| "js_String (JNum n) = n"
| "js_String (JStr s) = s"
| "js_String (JArr xs) = join '','' (js_elems xs)"
| "js_String (JObj kvs) = ''[object Object]''"
| "js_elems [] = []"
| "js_elems (x # xs) = (if x = JNull then [] else js_String x) # js_elems xs"

subsection \<open>Errors\<close>

text \<open>
  Every \<^verbatim>\<open>throw\<close> and every rejected promise of the source is a value: \<open>Error m\<close> is
  \<^verbatim>\<open>new Error(m)\<close>, \<open>StatusError m st\<close> is an \<^verbatim>\<open>Error\<close> whose \<^verbatim>\<open>status\<close> property was
  set, \<open>FetchFailed\<close> is the rejection of \<^verbatim>\<open>fetch\<close> on a network failure, \<open>SyntaxError\<close> the
  rejection of \<^verbatim>\<open>res.json()\<close> on a body that is not JSON, and \<open>TypeError\<close> a property read on
  \<^verbatim>\<open>null\<close> or \<^verbatim>\<open>undefined\<close>, or \<^verbatim>\<open>new URL\<close> given a string that is not a URL.
\<close>

datatype js_error =
    Error string
  | StatusError string nat
  | FetchFailed
  | SyntaxError
  | TypeError

text \<open>
  \<^verbatim>\<open>v.k\<close> on a parsed JSON value: reading a property of \<^verbatim>\<open>null\<close> throws, an object gives
  the property or \<^verbatim>\<open>undefined\<close>, and the keys the plugins read are \<^verbatim>\<open>undefined\<close> on every
  other value.
\<close>

fun get_prop :: "json \<Rightarrow> string \<Rightarrow> js_error + json option" where
  "get_prop JNull k = Inl TypeError"
| "get_prop (JObj kvs) k = Inr (map_of kvs k)"
| "get_prop v k = Inr None"

text \<open>\<^verbatim>\<open>v?.k\<close>: \<^verbatim>\<open>undefined\<close> when \<^verbatim>\<open>v\<close> is \<^verbatim>\<open>null\<close> or \<^verbatim>\<open>undefined\<close>.\<close>

fun opt_prop :: "json option \<Rightarrow> string \<Rightarrow> json option" where
  "opt_prop None k = None"
| "opt_prop (Some JNull) k = None"
| "opt_prop (Some (JObj kvs)) k = map_of kvs k"
| "opt_prop (Some v) k = None"

text \<open>\<^verbatim>\<open>a ?? b\<close>: \<^verbatim>\<open>b\<close> when \<^verbatim>\<open>a\<close> is \<^verbatim>\<open>null\<close> or \<^verbatim>\<open>undefined\<close>.\<close>

fun nullish :: "json option \<Rightarrow> bool" where
  "nullish None = True"
| "nullish (Some JNull) = True"
| "nullish (Some v) = False"

definition coalesce_str :: "json option \<Rightarrow> string \<Rightarrow> string" where
  "coalesce_str a b = (case a of None \<Rightarrow> b | Some v \<Rightarrow> if v = JNull then b else js_String v)"

definition truthy_opt :: "json option \<Rightarrow> bool" where
  "truthy_opt v = (case v of None \<Rightarrow> False | Some x \<Rightarrow> truthy x)"

subsection \<open>Requests, responses and the world\<close>

datatype payload =
    JsonText json
  | FormData "(string \<times> string) list"

text \<open>
  A request as the plugin hands it to \<^verbatim>\<open>fetch\<close>: the URL, the method, the headers and
  the body. The Spotify plugin builds its URL from a constant absolute base, and its
  request keeps the string given to \<^verbatim>\<open>new URL\<close> in \<open>req_url\<close> and the query parameters set
  on it in \<open>req_params\<close>. The n8n plugin builds its URL from a base URL read from the
  keychain, which need not be a URL at all: its request holds in \<open>req_url\<close> the string
  \<^verbatim>\<open>url.toString()\<close> returns, with the parameters in it, and \<open>req_params\<close> is empty.
\<close>

record request =
  req_url :: string
  req_params :: "(string \<times> string) list"
  req_method :: string
  req_headers :: "(string \<times> string) list"
  req_body :: "payload option"

text \<open>
  A response: \<open>body_json\<close> is what \<^verbatim>\<open>JSON.parse\<close> makes of \<open>body_text\<close>, absent when the
  text is not JSON.
\<close>

record response =
  status :: nat
  statusText :: string
  body_text :: string
  body_json :: "json option"

definition ok :: "response \<Rightarrow> bool" where
  "ok res = (200 \<le> status res \<and> status res \<le> 299)"

text \<open>\<^verbatim>\<open>res.json()\<close> rejects on an empty body and on a body that is not JSON.\<close>

definition res_json :: "response \<Rightarrow> js_error + json" where
  "res_json res =
     (if body_text res = [] then Inl SyntaxError
      else case body_json res of None \<Rightarrow> Inl SyntaxError | Some j \<Rightarrow> Inr j)"

datatype event =
    KeychainGet string string string
  | KeychainSet string string string string
  | Fetch request

text \<open>
  The world a plugin runs in: the secret stores on disk, one per configuration directory,
  and the log of what the plugin did, oldest event first.
\<close>

record world =
  store :: "string \<Rightarrow> string \<times> string \<Rightarrow> string option"
  trace :: "event list"

fun requests :: "event list \<Rightarrow> request list" where
  "requests [] = []"
| "requests (Fetch r # es) = r # requests es"
| "requests (e # es) = requests es"

text \<open>
  The network answers a request knowing the requests sent before it; \<^const>\<open>None\<close> is a
  failure to connect, on which \<^verbatim>\<open>fetch\<close> rejects.
\<close>

type_synonym network = "request list \<Rightarrow> request \<Rightarrow> response option"

definition fetch :: "network \<Rightarrow> request \<Rightarrow> world \<Rightarrow> response option \<times> world" where
  "fetch N req w = (N (requests (trace w)) req, w\<lparr>trace := trace w @ [Fetch req]\<rparr>)"

text \<open>
  The URL parser is the platform's. \<open>U s ps\<close> is what
  \<^verbatim>\<open>const url = new URL(s); for (const [k, v] of ps) url.searchParams.set(k, v); url.toString()\<close>
  returns, and \<^const>\<open>None\<close> when \<^verbatim>\<open>new URL(s)\<close> throws its \<^verbatim>\<open>TypeError\<close>, as it does for
  a string without a scheme.
\<close>

type_synonym url_parser = "string \<Rightarrow> (string \<times> string) list \<Rightarrow> string option"

text \<open>
  The parser on the URLs of the examples below, which it serialises unchanged: they have a
  scheme, a host and a path of unreserved characters, and no parameter is set on them.
\<close>

definition example_parser :: url_parser where
  "example_parser s ps =
     (if ps = [] \<and> (prefix ''http://'' s \<or> prefix ''https://'' s) then Some s else None)"

subsection \<open>The keychain\<close>

text \<open>
  Modelled from the spec: the \<^verbatim>\<open>Keychain\<close> class of the shared package, which the plugins
  import and construct but which is not among the sources. The spec gives the contract:
  records are keyed by \<open>(service, key)\<close>, \<open>get\<close> returns the value last \<open>set\<close> or absent,
  and two stores bound to the same configuration directory observe the same records.
\<close>

datatype Keychain = Keychain string

fun Keychain_get :: "Keychain \<Rightarrow> string \<Rightarrow> string \<Rightarrow> world \<Rightarrow> string option \<times> world" where
  "Keychain_get (Keychain dir) service k w =
     (store w dir (service, k), w\<lparr>trace := trace w @ [KeychainGet dir service k]\<rparr>)"

fun Keychain_set :: "Keychain \<Rightarrow> string \<Rightarrow> string \<Rightarrow> string \<Rightarrow> world \<Rightarrow> world" where
  "Keychain_set (Keychain dir) service k v w =
     w\<lparr>store := (store w)(dir := (store w dir)((service, k) \<mapsto> v)),
       trace := trace w @ [KeychainSet dir service k v]\<rparr>"

text \<open>
  A plugin instance after \<^verbatim>\<open>initialize(conductor)\<close>, which binds a keychain to
  \<^verbatim>\<open>conductor.getConfig().getConfigDir()\<close>.
\<close>

record plugin =
  keychain :: Keychain

definition initialize :: "string \<Rightarrow> plugin" where
  "initialize configDir = \<lparr>keychain = Keychain configDir\<rparr>"

text \<open>The \<^verbatim>\<open>options\<close> argument of the fetch helpers.\<close>

record options =
  opt_method :: "string option"
  opt_body :: "json option"
  opt_params :: "(string \<times> string) list option"

definition no_options :: options where
  "no_options = \<lparr>opt_method = None, opt_body = None, opt_params = None\<rparr>"

text \<open>\<^verbatim>\<open>options.body ? JSON.stringify(options.body) : undefined\<close>\<close>

definition body_of :: "options \<Rightarrow> payload option" where
  "body_of opts = (case opt_body opts of None \<Rightarrow> None | Some b \<Rightarrow> if truthy b then Some (JsonText b) else None)"

text \<open>\<^verbatim>\<open>options.method ?? 'GET'\<close>\<close>

definition method_of :: "options \<Rightarrow> string" where
  "method_of opts = (case opt_method opts of None \<Rightarrow> ''GET'' | Some m \<Rightarrow> m)"

text \<open>\<^verbatim>\<open>if (options.params) for (const [k, v] of Object.entries(options.params)) url.searchParams.set(k, v)\<close>\<close>

definition params_of :: "options \<Rightarrow> (string \<times> string) list" where
  "params_of opts = (case opt_params opts of None \<Rightarrow> [] | Some ps \<Rightarrow> ps)"

subsection \<open>The n8n plugin\<close>

record n8n_config =
  apiKey :: string
  baseUrl :: string

text \<open>
  The message of the source has arrows between \<^verbatim>\<open>Settings\<close>, \<^verbatim>\<open>API\<close> and
  \<^verbatim>\<open>Create Key\<close>; they lie outside the code units modelled and are written \<^verbatim>\<open>->\<close>.
\<close>

definition n8n_not_configured :: js_error where
  "n8n_not_configured =
     Error (''n8n API key not configured.'' @ newline @
            ''Get one from your n8n instance: Settings -> API -> Create Key'' @ newline @
            ''Then run: conductor plugins config n8n api_key <KEY>'')"

definition N8nPlugin_getConfig :: "plugin \<Rightarrow> world \<Rightarrow> (js_error + n8n_config) \<times> world" where
  "N8nPlugin_getConfig this w =
     (case Keychain_get (keychain this) ''n8n'' ''api_key'' w of (k, w1) \<Rightarrow>
        (case k of
           None \<Rightarrow> (Inl n8n_not_configured, w1)
         | Some key \<Rightarrow>
             if key = [] then (Inl n8n_not_configured, w1)
             else (case Keychain_get (keychain this) ''n8n'' ''base_url'' w1 of (rawUrl, w2) \<Rightarrow>
                     (Inr \<lparr>apiKey = key, baseUrl = normaliseBaseUrl rawUrl\<rparr>, w2))))"

text \<open>
  \<^verbatim>\<open>n8nFetch\<close>: the base URL followed by the path is parsed by \<^verbatim>\<open>new URL\<close>, which throws
  before anything is sent when the string is not a URL; the parameters are set on the
  parsed URL and the request goes to its serialisation \<open>href\<close>. The API key goes in the
  \<^verbatim>\<open>X-N8N-API-KEY\<close> header; status 204 gives the empty object, any other status outside
  200..299 an error, and everything else is parsed as JSON.
\<close>

definition n8n_request :: "n8n_config \<Rightarrow> string \<Rightarrow> options \<Rightarrow> request" where
  "n8n_request cfg href opts =
     \<lparr>req_url = href, req_params = [], req_method = method_of opts,
      req_headers = [(''X-N8N-API-KEY'', apiKey cfg),
                     (''Content-Type'', ''application/json''),
                     (''Accept'', ''application/json'')],
      req_body = body_of opts\<rparr>"

definition n8n_result :: "response \<Rightarrow> js_error + json" where
  "n8n_result res =
     (if status res = 204 then Inr (JObj [])
      else if \<not> ok res then
        (let err = (case res_json res of
                      Inl e \<Rightarrow> JObj [(''message'', JStr (statusText res))]
                    | Inr j \<Rightarrow> j)
         in case get_prop err ''message'' of
              Inl e \<Rightarrow> Inl e
            | Inr m \<Rightarrow>
                Inl (Error (''n8n API '' @ show_nat (status res) @ '': '' @
                            coalesce_str m (statusText res))))
      else res_json res)"

definition N8nPlugin_n8nFetch ::
  "network \<Rightarrow> url_parser \<Rightarrow> plugin \<Rightarrow> string \<Rightarrow> options \<Rightarrow> world \<Rightarrow> (js_error + json) \<times> world" where
  "N8nPlugin_n8nFetch N U this path opts w =
     (case N8nPlugin_getConfig this w of
        (Inl e, w1) \<Rightarrow> (Inl e, w1)
      | (Inr cfg, w1) \<Rightarrow>
          (case U (baseUrl cfg @ path) (params_of opts) of
             None \<Rightarrow> (Inl TypeError, w1)
           | Some href \<Rightarrow>
               (case fetch N (n8n_request cfg href opts) w1 of
                  (None, w2) \<Rightarrow> (Inl FetchFailed, w2)
                | (Some res, w2) \<Rightarrow> (n8n_result res, w2))))"


subsection \<open>The n8n base URL is normalised\<close>

lemma endsWith_suffix: "endsWith s suf = suffix suf s"
  unfolding endsWith_def suffix_def
  by (metis append_eq_conv_conj append_take_drop_id diff_add_inverse2 length_append length_drop le_add2)

lemma normaliseBaseUrl_endsWith: "endsWith (normaliseBaseUrl raw) ''/api/v1''"
  by (simp add: normaliseBaseUrl_def Let_def endsWith_suffix suffix_def)

lemma stripTrailingSlash_cases:
  obtains (slash) v where "u = v @ ''/''" "stripTrailingSlash u = v"
  | (other) "\<not> suffix ''/'' u" "stripTrailingSlash u = u"
proof (cases "u \<noteq> [] \<and> last u = CHR ''/''")
  case True
  then have "u = butlast u @ ''/''" by (metis append_butlast_last_id)
  moreover have "stripTrailingSlash u = butlast u" using True by (simp add: stripTrailingSlash_def)
  ultimately show ?thesis using slash by blast
next
  case False
  then have "\<not> suffix ''/'' u" by (auto simp: suffix_def)
  moreover have "stripTrailingSlash u = u" using False by (auto simp: stripTrailingSlash_def)
  ultimately show ?thesis using other by blast
qed

lemma stripTrailingSlash_normalised: "endsWith s ''/api/v1'' \<Longrightarrow> stripTrailingSlash s = s"
  by (auto simp: endsWith_suffix stripTrailingSlash_def suffix_def)

lemma normaliseBaseUrl_idem: "normaliseBaseUrl (Some (normaliseBaseUrl raw)) = normaliseBaseUrl raw"
  using normaliseBaseUrl_endsWith[of raw] stripTrailingSlash_normalised[of "normaliseBaseUrl raw"]
  by (simp add: normaliseBaseUrl_def[of "Some _"] Let_def)

lemma suffix_snoc_iff: "suffix (xs @ [c]) (v @ [d]) \<longleftrightarrow> c = d \<and> suffix xs v"
  by (metis snoc_suffix_snoc)

lemma instance_part_slash:
  assumes "suffix ''/api/v1'' s"
  shows "suffix ''/'' (take (length s - 7) s) \<longleftrightarrow> suffix ''//api/v1'' s"
proof -
  from assms obtain p where s: "s = p @ ''/api/v1''" by (auto simp: suffix_def)
  have "suffix (''/'' @ ''/api/v1'') (p @ ''/api/v1'') = suffix ''/'' p" by (rule same_suffix_suffix)
  then show ?thesis using s by simp
qed

text \<open>
  The part of the normalised URL before \<^verbatim>\<open>/api/v1\<close> ends with a slash exactly when the
  stored URL ends with two slashes, before or after an \<^verbatim>\<open>/api/v1\<close> of its own: the
  pattern removes one slash only.
\<close>

lemma normaliseBaseUrl_slash:
  "suffix ''/'' (take (length (normaliseBaseUrl raw) - 7) (normaliseBaseUrl raw)) \<longleftrightarrow>
     (let u = (case raw of None \<Rightarrow> ''http://localhost:5678'' | Some u \<Rightarrow> u)
      in suffix ''//'' u \<or> suffix ''//api/v1'' u \<or> suffix ''//api/v1/'' u)"
proof -
  define u where "u = (case raw of None \<Rightarrow> ''http://localhost:5678'' | Some u \<Rightarrow> u)"
  have n: "normaliseBaseUrl raw =
      (if \<not> suffix ''/api/v1'' (stripTrailingSlash u) then stripTrailingSlash u @ ''/api/v1''
       else stripTrailingSlash u)"
    by (simp add: normaliseBaseUrl_def Let_def u_def endsWith_suffix)
  have "suffix ''/'' (take (length (normaliseBaseUrl raw) - 7) (normaliseBaseUrl raw)) \<longleftrightarrow>
      (suffix ''//'' u \<or> suffix ''//api/v1'' u \<or> suffix ''//api/v1/'' u)"
  proof (cases u rule: stripTrailingSlash_cases)
    case (slash v)
    note snoc = suffix_snoc_iff[of "''//api/v1''" "CHR ''/''" v "CHR ''/''"]
      suffix_snoc_iff[of "''/''" "CHR ''/''" v "CHR ''/''"]
      suffix_snoc_iff[of "''//api/v''" "CHR ''1''" v "CHR ''/''"]
    show ?thesis
    proof (cases "suffix ''/api/v1'' v")
      case True
      have "\<not> suffix ''/'' v" using True by (auto simp: suffix_def)
      then show ?thesis using True instance_part_slash[OF True] slash snoc by (simp add: n)
    next
      case False
      have "\<not> suffix ''//api/v1'' v" using False by (auto simp: suffix_def)
      then show ?thesis using False slash snoc by (simp add: n)
    qed
  next
    case other
    have c: "\<not> suffix ''//'' u" "\<not> suffix ''//api/v1/'' u" using other(1) by (auto simp: suffix_def)
    show ?thesis
    proof (cases "suffix ''/api/v1'' u")
      case True
      show ?thesis using True instance_part_slash[OF True] other c by (simp add: n)
    next
      case False
      have "\<not> suffix ''//api/v1'' u" using False by (auto simp: suffix_def)
      then show ?thesis using False other c by (simp add: n)
    qed
  qed
  then show ?thesis by (simp add: u_def Let_def)
qed

lemma requests_append: "requests (xs @ ys) = requests xs @ requests ys"
  by (induction xs rule: requests.induct) auto

lemma N8nPlugin_getConfig_requests:
  assumes "N8nPlugin_getConfig this w = (r, w')"
  shows "requests (trace w') = requests (trace w)"
  using assms
  by (cases "keychain this")
     (auto simp: N8nPlugin_getConfig_def requests_append split: option.splits if_splits)

lemma N8nPlugin_getConfig_baseUrl:
  assumes "keychain this = Keychain dir" and "N8nPlugin_getConfig this w = (Inr cfg, w')"
  shows "baseUrl cfg = normaliseBaseUrl (store w dir (''n8n'', ''base_url''))"
  using assms
  by (auto simp: N8nPlugin_getConfig_def split: option.splits if_splits)

text \<open>
  C10, as the code has it. Whenever \<^verbatim>\<open>getConfig\<close> returns, for the stored
  \<^verbatim>\<open>base_url\<close> or for the default when none is stored, the base URL ends with
  \<^verbatim>\<open>/api/v1\<close> and normalising it again leaves it unchanged. One trailing slash is removed,
  not every one: what stands before the \<^verbatim>\<open>/api/v1\<close> suffix ends with a slash exactly when
  the stored URL ends with \<^verbatim>\<open>//\<close>, \<^verbatim>\<open>//api/v1\<close> or \<^verbatim>\<open>//api/v1/\<close>. The string
  \<^verbatim>\<open>n8nFetch\<close> gives to \<^verbatim>\<open>new URL\<close> is the part before the suffix, \<^verbatim>\<open>/api/v1\<close> and the path;
  where the request goes is the parser's to say: \<^verbatim>\<open>n8nFetch\<close> sends one request, to the
  serialisation of the parsed URL with the parameters set on it, and none when the string
  does not parse.
\<close>

theorem n8n_baseUrl_normalised:
  assumes "keychain this = Keychain dir" and "N8nPlugin_getConfig this w = (Inr cfg, w')"
  shows "endsWith (baseUrl cfg) ''/api/v1'' \<and>
         normaliseBaseUrl (Some (baseUrl cfg)) = baseUrl cfg \<and>
         (endsWith (take (length (baseUrl cfg) - 7) (baseUrl cfg)) ''/'' \<longleftrightarrow>
            (let u = (case store w dir (''n8n'', ''base_url'') of
                        None \<Rightarrow> ''http://localhost:5678'' | Some u \<Rightarrow> u)
             in endsWith u ''//'' \<or> endsWith u ''//api/v1'' \<or> endsWith u ''//api/v1/'')) \<and>
         requests (trace (snd (N8nPlugin_n8nFetch N U this path opts w))) =
           requests (trace w) @
           (case U (take (length (baseUrl cfg) - 7) (baseUrl cfg) @ ''/api/v1'' @ path) (params_of opts) of
              None \<Rightarrow> []
            | Some href \<Rightarrow> [n8n_request cfg href opts])"
proof -
  let ?raw = "store w dir (''n8n'', ''base_url'')"
  have b: "baseUrl cfg = normaliseBaseUrl ?raw" by (rule N8nPlugin_getConfig_baseUrl[OF assms])
  have e: "suffix ''/api/v1'' (baseUrl cfg)"
    using normaliseBaseUrl_endsWith[of ?raw] by (simp add: b endsWith_suffix)
  then obtain p where p: "baseUrl cfg = p @ ''/api/v1''" by (auto simp: suffix_def)
  have s: "take (length (baseUrl cfg) - 7) (baseUrl cfg) @ ''/api/v1'' @ path = baseUrl cfg @ path"
    by (simp add: p)
  have q: "requests (trace w') = requests (trace w)"
    by (rule N8nPlugin_getConfig_requests[OF assms(2)])
  have u: "requests (trace (snd (N8nPlugin_n8nFetch N U this path opts w))) =
           requests (trace w) @
           (case U (take (length (baseUrl cfg) - 7) (baseUrl cfg) @ ''/api/v1'' @ path) (params_of opts) of
              None \<Rightarrow> []
            | Some href \<Rightarrow> [n8n_request cfg href opts])"
    unfolding s N8nPlugin_n8nFetch_def assms(2)
    by (cases "U (baseUrl cfg @ path) (params_of opts)")
       (auto simp: fetch_def requests_append q split: option.splits)
  show ?thesis
    using e normaliseBaseUrl_idem[of ?raw] normaliseBaseUrl_slash[of ?raw] u
    by (simp add: endsWith_suffix b)
qed

text \<open>A world whose store under \<^verbatim>\<open>/cfg\<close> holds the given records and whose log is empty.\<close>

definition world_of :: "((string \<times> string) \<times> string) list \<Rightarrow> world" where
  "world_of records = \<lparr>store = (\<lambda>dir. if dir = ''/cfg'' then map_of records else Map.empty), trace = []\<rparr>"

theorem n8n_baseUrl_normalised_witness:
  "fst (N8nPlugin_getConfig (initialize ''/cfg'')
          (world_of [((''n8n'', ''api_key''), ''k''), ((''n8n'', ''base_url''), ''https://n8n.example.com/'')]))
     = Inr \<lparr>apiKey = ''k'', baseUrl = ''https://n8n.example.com/api/v1''\<rparr> \<and>
   endsWith ''https://n8n.example.com/api/v1'' ''/api/v1'' \<and>
   normaliseBaseUrl (Some ''https://n8n.example.com/api/v1'') = ''https://n8n.example.com/api/v1'' \<and>
   \<not> endsWith ''https://n8n.example.com'' ''/'' \<and>
   map req_url (requests (trace (snd (N8nPlugin_n8nFetch (\<lambda>h r. None) example_parser (initialize ''/cfg'')
          ''/workflows'' no_options
          (world_of [((''n8n'', ''api_key''), ''k''), ((''n8n'', ''base_url''), ''https://n8n.example.com/'')])))))
     = [''https://n8n.example.com/api/v1/workflows'']"
proof -
  let ?w = "world_of [((''n8n'', ''api_key''), ''k''), ((''n8n'', ''base_url''), ''https://n8n.example.com/'')]"
  let ?cfg = "\<lparr>apiKey = ''k'', baseUrl = ''https://n8n.example.com/api/v1''\<rparr>"
  have k: "keychain (initialize ''/cfg'') = Keychain ''/cfg''" by (simp add: initialize_def)
  have r: "N8nPlugin_getConfig (initialize ''/cfg'') ?w =
             (Inr ?cfg, ?w\<lparr>trace := [KeychainGet ''/cfg'' ''n8n'' ''api_key'', KeychainGet ''/cfg'' ''n8n'' ''base_url'']\<rparr>)"
    by (simp add: N8nPlugin_getConfig_def initialize_def world_of_def normaliseBaseUrl_def
        stripTrailingSlash_def endsWith_def)
  from n8n_baseUrl_normalised[OF k r, of "\<lambda>h r. None" example_parser "''/workflows''" no_options] r
  show ?thesis
    by (simp add: endsWith_def world_of_def example_parser_def no_options_def params_of_def
        n8n_request_def)
qed

text \<open>
  C10 as the spec states it fails: a stored URL that ends with two slashes keeps one of
  them before the suffix.
\<close>

theorem n8n_baseUrl_double_slash_counterexample:
  "fst (N8nPlugin_getConfig (initialize ''/cfg'')
          (world_of [((''n8n'', ''api_key''), ''k''), ((''n8n'', ''base_url''), ''https://n8n.example.com//'')]))
     = Inr \<lparr>apiKey = ''k'', baseUrl = ''https://n8n.example.com//api/v1''\<rparr> \<and>
   endsWith (take (length ''https://n8n.example.com//api/v1'' - 7) ''https://n8n.example.com//api/v1'') ''/''"
  by (simp add: N8nPlugin_getConfig_def initialize_def world_of_def normaliseBaseUrl_def
      stripTrailingSlash_def endsWith_def)


subsection \<open>The Spotify plugin\<close>

definition SPOTIFY_BASE :: string where
  "SPOTIFY_BASE = ''https://api.spotify.com/v1''"

definition SPOTIFY_AUTH :: string where
  "SPOTIFY_AUTH = ''https://accounts.spotify.com''"

definition spotify_not_authenticated :: js_error where
  "spotify_not_authenticated =
     Error (''Spotify not authenticated.'' @ newline @
            ''Run: conductor plugins auth spotify'' @ newline @
            ''Or manually set: conductor plugins config spotify access_token <TOKEN>'')"

definition spotify_refresh_failed :: js_error where
  "spotify_refresh_failed =
     Error ''Spotify token expired and refresh failed. Run: conductor plugins auth spotify''"

definition SpotifyPlugin_getToken :: "plugin \<Rightarrow> world \<Rightarrow> (js_error + string) \<times> world" where
  "SpotifyPlugin_getToken this w =
     (case Keychain_get (keychain this) ''spotify'' ''access_token'' w of (token, w1) \<Rightarrow>
        (case token of
           None \<Rightarrow> (Inl spotify_not_authenticated, w1)
         | Some t \<Rightarrow> if t = [] then (Inl spotify_not_authenticated, w1) else (Inr t, w1)))"

text \<open>The request \<^verbatim>\<open>refreshToken\<close> posts to the token endpoint.\<close>

definition token_request :: "string \<Rightarrow> string \<Rightarrow> request" where
  "token_request refreshToken clientId =
     \<lparr>req_url = SPOTIFY_AUTH @ ''/api/token'', req_params = [], req_method = ''POST'',
      req_headers = [(''Content-Type'', ''application/x-www-form-urlencoded'')],
      req_body = Some (FormData [(''grant_type'', ''refresh_token''),
                                 (''refresh_token'', refreshToken),
                                 (''client_id'', clientId)])\<rparr>"

text \<open>
  \<^verbatim>\<open>refreshToken\<close> returns the new access token, or \<^verbatim>\<open>null\<close> when there is nothing to
  refresh with, when the token endpoint answers outside 200..299, or when its answer has
  no \<^verbatim>\<open>access_token\<close>. The new token is written to the keychain before the function
  returns. The keychain takes strings; the \<^verbatim>\<open>any\<close>-typed token of the answer is stored as
  its string conversion, which is the token itself when it is a string.
\<close>

definition SpotifyPlugin_refreshToken ::
  "network \<Rightarrow> plugin \<Rightarrow> world \<Rightarrow> (js_error + json option) \<times> world" where
  "SpotifyPlugin_refreshToken N this w =
     (case Keychain_get (keychain this) ''spotify'' ''refresh_token'' w of (refreshToken, w1) \<Rightarrow>
      case Keychain_get (keychain this) ''spotify'' ''client_id'' w1 of (clientId, w2) \<Rightarrow>
        if falsy_str refreshToken \<or> falsy_str clientId then (Inr None, w2)
        else
          (case fetch N (token_request (the refreshToken) (the clientId)) w2 of
             (None, w3) \<Rightarrow> (Inl FetchFailed, w3)
           | (Some res, w3) \<Rightarrow>
               if \<not> ok res then (Inr None, w3)
               else
                 (case res_json res of
                    Inl e \<Rightarrow> (Inl e, w3)
                  | Inr data \<Rightarrow>
                      (case get_prop data ''access_token'' of
                         Inl e \<Rightarrow> (Inl e, w3)
                       | Inr access_token \<Rightarrow>
                           if truthy_opt access_token then
                             (let w4 = Keychain_set (keychain this) ''spotify'' ''access_token''
                                         (js_String (the access_token)) w3;
                                  new_refresh = opt_prop (Some data) ''refresh_token'';
                                  w5 = (if truthy_opt new_refresh
                                        then Keychain_set (keychain this) ''spotify'' ''refresh_token''
                                               (js_String (the new_refresh)) w4
                                        else w4)
                              in (Inr access_token, w5))
                           else (Inr None, w3)))))"

text \<open>The request \<^verbatim>\<open>spotifyFetch\<close> sends, with the token it read from the keychain.\<close>

definition spotify_request :: "string \<Rightarrow> options \<Rightarrow> string \<Rightarrow> request" where
  "spotify_request path opts token =
     \<lparr>req_url = SPOTIFY_BASE @ path, req_params = params_of opts, req_method = method_of opts,
      req_headers = [(''Authorization'', ''Bearer '' @ token), (''Content-Type'', ''application/json'')],
      req_body = body_of opts\<rparr>"

text \<open>
  What \<^verbatim>\<open>spotifyFetch\<close> makes of a response it does not refresh on:
  \<^verbatim>\<open>if (res.status === 204 || res.status === 202) return {};
  if (!res.ok) { const err = await res.json().catch(() => ({}));
    throw new Error(`Spotify API ${res.status}: ${err.error?.message ?? res.statusText}`); }
  return res.json();\<close>
\<close>

definition spotify_result :: "response \<Rightarrow> js_error + json" where
  "spotify_result res =
     (if status res = 204 \<or> status res = 202 then Inr (JObj [])
      else if \<not> ok res then
        (let err = (case res_json res of Inl e \<Rightarrow> JObj [] | Inr j \<Rightarrow> j)
         in case get_prop err ''error'' of
              Inl e \<Rightarrow> Inl e
            | Inr er \<Rightarrow>
                Inl (Error (''Spotify API '' @ show_nat (status res) @ '': '' @
                            coalesce_str (opt_prop er ''message'') (statusText res))))
      else res_json res)"

function SpotifyPlugin_spotifyFetch ::
  "network \<Rightarrow> plugin \<Rightarrow> string \<Rightarrow> options \<Rightarrow> bool \<Rightarrow> world \<Rightarrow> (js_error + json) \<times> world" where
  "SpotifyPlugin_spotifyFetch N this path opts retry w =
     (case SpotifyPlugin_getToken this w of
        (Inl e, w1) \<Rightarrow> (Inl e, w1)
      | (Inr token, w1) \<Rightarrow>
          (case fetch N (spotify_request path opts token) w1 of
             (None, w2) \<Rightarrow> (Inl FetchFailed, w2)
           | (Some res, w2) \<Rightarrow>
               if status res = 401 \<and> retry then
                 (case SpotifyPlugin_refreshToken N this w2 of
                    (Inl e, w3) \<Rightarrow> (Inl e, w3)
                  | (Inr newToken, w3) \<Rightarrow>
                      if truthy_opt newToken
                      then SpotifyPlugin_spotifyFetch N this path opts False w3
                      else (Inl spotify_refresh_failed, w3))
               else (spotify_result res, w2)))"
  by pat_completeness auto
termination
  by (relation "measure (\<lambda>(N, this, path, opts, retry, w). if retry then 1 else 0)") auto

declare SpotifyPlugin_spotifyFetch.simps [simp del]

subsection \<open>The Gmail and Google Calendar plugins\<close>

definition GMAIL_BASE :: string where
  "GMAIL_BASE = ''https://gmail.googleapis.com/gmail/v1/users/me''"

definition CAL_BASE :: string where
  "CAL_BASE = ''https://www.googleapis.com/calendar/v3''"

definition google_not_authenticated :: js_error where
  "google_not_authenticated = Error ''Google not authenticated. Run: conductor auth google''"

definition google_token_expired :: js_error where
  "google_token_expired = Error ''Google token expired. Re-authenticate: conductor auth google''"

definition GmailPlugin_getToken :: "plugin \<Rightarrow> world \<Rightarrow> (js_error + string) \<times> world" where
  "GmailPlugin_getToken this w =
     (case Keychain_get (keychain this) ''google'' ''access_token'' w of (token, w1) \<Rightarrow>
        (case token of
           None \<Rightarrow> (Inl google_not_authenticated, w1)
         | Some t \<Rightarrow> if t = [] then (Inl google_not_authenticated, w1) else (Inr t, w1)))"

definition GoogleCalendarPlugin_getToken :: "plugin \<Rightarrow> world \<Rightarrow> (js_error + string) \<times> world" where
  "GoogleCalendarPlugin_getToken this w =
     (case Keychain_get (keychain this) ''google'' ''access_token'' w of (token, w1) \<Rightarrow>
        (case token of
           None \<Rightarrow> (Inl google_not_authenticated, w1)
         | Some t \<Rightarrow> if t = [] then (Inl google_not_authenticated, w1) else (Inr t, w1)))"

definition google_request :: "string \<Rightarrow> string \<Rightarrow> options \<Rightarrow> string \<Rightarrow> request" where
  "google_request base path opts token =
     \<lparr>req_url = base @ path, req_params = [], req_method = method_of opts,
      req_headers = [(''Authorization'', ''Bearer '' @ token), (''Content-Type'', ''application/json'')],
      req_body = body_of opts\<rparr>"

text \<open>
  \<^verbatim>\<open>gmailFetch\<close> has no refresh and no case for an empty body: status 401 is the
  token-expired error, any other status outside 200..299 an API error with the body's
  text, and every other response is parsed as JSON.
\<close>

definition GmailPlugin_gmailFetch ::
  "network \<Rightarrow> plugin \<Rightarrow> string \<Rightarrow> options \<Rightarrow> world \<Rightarrow> (js_error + json) \<times> world" where
  "GmailPlugin_gmailFetch N this path opts w =
     (case GmailPlugin_getToken this w of
        (Inl e, w1) \<Rightarrow> (Inl e, w1)
      | (Inr token, w1) \<Rightarrow>
          (case fetch N (google_request GMAIL_BASE path opts token) w1 of
             (None, w2) \<Rightarrow> (Inl FetchFailed, w2)
           | (Some res, w2) \<Rightarrow>
               if \<not> ok res then
                 (if status res = 401 then (Inl google_token_expired, w2)
                  else (Inl (Error (''Gmail API '' @ show_nat (status res) @ '': '' @ body_text res)), w2))
               else (res_json res, w2)))"

text \<open>\<^verbatim>\<open>calFetch\<close> is the same envelope with one more line: status 204 gives the empty object.\<close>

definition GoogleCalendarPlugin_calFetch ::
  "network \<Rightarrow> plugin \<Rightarrow> string \<Rightarrow> options \<Rightarrow> world \<Rightarrow> (js_error + json) \<times> world" where
  "GoogleCalendarPlugin_calFetch N this path opts w =
     (case GoogleCalendarPlugin_getToken this w of
        (Inl e, w1) \<Rightarrow> (Inl e, w1)
      | (Inr token, w1) \<Rightarrow>
          (case fetch N (google_request CAL_BASE path opts token) w1 of
             (None, w2) \<Rightarrow> (Inl FetchFailed, w2)
           | (Some res, w2) \<Rightarrow>
               if \<not> ok res then
                 (if status res = 401 then (Inl google_token_expired, w2)
                  else (Inl (Error (''Google Calendar API '' @ show_nat (status res) @ '': '' @ body_text res)), w2))
               else if status res = 204 then (Inr (JObj []), w2)
               else (res_json res, w2)))"


subsection \<open>What each envelope makes of a response\<close>

lemma spotify_getToken_ok:
  assumes "keychain this = Keychain dir" "store w dir (''spotify'', ''access_token'') = Some t" "t \<noteq> []"
  shows "SpotifyPlugin_getToken this w = (Inr t, w\<lparr>trace := trace w @ [KeychainGet dir ''spotify'' ''access_token'']\<rparr>)"
  using assms by (simp add: SpotifyPlugin_getToken_def)

lemma spotify_first_request:
  assumes "keychain this = Keychain dir" "store w dir (''spotify'', ''access_token'') = Some t" "t \<noteq> []"
    and "N (requests (trace w)) (spotify_request path opts t) = Some res"
  shows "SpotifyPlugin_spotifyFetch N this path opts retry w =
     (let w2 = w\<lparr>trace := trace w @ [KeychainGet dir ''spotify'' ''access_token'', Fetch (spotify_request path opts t)]\<rparr>
      in if status res = 401 \<and> retry then
                 (case SpotifyPlugin_refreshToken N this w2 of
                    (Inl e, w3) \<Rightarrow> (Inl e, w3)
                  | (Inr newToken, w3) \<Rightarrow>
                      if truthy_opt newToken
                      then SpotifyPlugin_spotifyFetch N this path opts False w3
                      else (Inl spotify_refresh_failed, w3))
               else (spotify_result res, w2))"
  using assms
  by (subst SpotifyPlugin_spotifyFetch.simps) (simp add: spotify_getToken_ok fetch_def requests_append Let_def)

lemma spotify_empty_body:
  assumes "keychain this = Keychain dir" "store w dir (''spotify'', ''access_token'') = Some t" "t \<noteq> []"
    and "N (requests (trace w)) (spotify_request path opts t) = Some res"
    and "status res = 204 \<or> status res = 202"
  shows "fst (SpotifyPlugin_spotifyFetch N this path opts retry w) = Inr (JObj [])"
  using assms(5) by (auto simp add: spotify_first_request[where N=N, OF assms(1-4)] spotify_result_def Let_def)

lemma gmail_response:
  assumes "keychain this = Keychain dir" "store w dir (''google'', ''access_token'') = Some t" "t \<noteq> []"
    and "N (requests (trace w)) (google_request GMAIL_BASE path opts t) = Some res"
  shows "GmailPlugin_gmailFetch N this path opts w =
     (if \<not> ok res then (if status res = 401 then Inl google_token_expired
               else Inl (Error (''Gmail API '' @ show_nat (status res) @ '': '' @ body_text res)))
      else res_json res,
      w\<lparr>trace := trace w @ [KeychainGet dir ''google'' ''access_token'', Fetch (google_request GMAIL_BASE path opts t)]\<rparr>)"
  using assms
  by (simp add: GmailPlugin_gmailFetch_def GmailPlugin_getToken_def fetch_def requests_append)

lemma cal_response:
  assumes "keychain this = Keychain dir" "store w dir (''google'', ''access_token'') = Some t" "t \<noteq> []"
    and "N (requests (trace w)) (google_request CAL_BASE path opts t) = Some res"
  shows "GoogleCalendarPlugin_calFetch N this path opts w =
     (if \<not> ok res then (if status res = 401 then Inl google_token_expired
               else Inl (Error (''Google Calendar API '' @ show_nat (status res) @ '': '' @ body_text res)))
      else if status res = 204 then Inr (JObj [])
      else res_json res,
      w\<lparr>trace := trace w @ [KeychainGet dir ''google'' ''access_token'', Fetch (google_request CAL_BASE path opts t)]\<rparr>)"
  using assms
  by (simp add: GoogleCalendarPlugin_calFetch_def GoogleCalendarPlugin_getToken_def fetch_def requests_append)

lemma n8n_getConfig_ok:
  assumes "keychain this = Keychain dir" "store w dir (''n8n'', ''api_key'') = Some k" "k \<noteq> []"
  shows "N8nPlugin_getConfig this w = (Inr \<lparr>apiKey = k, baseUrl = normaliseBaseUrl (store w dir (''n8n'', ''base_url''))\<rparr>,
     w\<lparr>trace := trace w @ [KeychainGet dir ''n8n'' ''api_key'', KeychainGet dir ''n8n'' ''base_url'']\<rparr>)"
  using assms by (simp add: N8nPlugin_getConfig_def)

lemma n8n_response:
  assumes "keychain this = Keychain dir" "store w dir (''n8n'', ''api_key'') = Some k" "k \<noteq> []"
    and "U (normaliseBaseUrl (store w dir (''n8n'', ''base_url'')) @ path) (params_of opts) = Some href"
    and "N (requests (trace w))
           (n8n_request \<lparr>apiKey = k, baseUrl = normaliseBaseUrl (store w dir (''n8n'', ''base_url''))\<rparr> href opts) = Some res"
    and "ok res \<or> status res = 204"
  shows "N8nPlugin_n8nFetch N U this path opts w =
     (if status res = 204 then Inr (JObj []) else res_json res,
      w\<lparr>trace := trace w @ [KeychainGet dir ''n8n'' ''api_key'', KeychainGet dir ''n8n'' ''base_url'',
                              Fetch (n8n_request \<lparr>apiKey = k, baseUrl = normaliseBaseUrl (store w dir (''n8n'', ''base_url''))\<rparr> href opts)]\<rparr>)"
proof -
  have g: "N8nPlugin_getConfig this w = (Inr \<lparr>apiKey = k, baseUrl = normaliseBaseUrl (store w dir (''n8n'', ''base_url''))\<rparr>,
     w\<lparr>trace := trace w @ [KeychainGet dir ''n8n'' ''api_key'', KeychainGet dir ''n8n'' ''base_url'']\<rparr>)"
    using assms(1-3) by (rule n8n_getConfig_ok)
  show ?thesis
    unfolding N8nPlugin_n8nFetch_def g
    using assms(4,5,6)
    by (cases "status res = 204") (auto simp add: fetch_def requests_append n8n_result_def)
qed

lemma n8n_not_a_url:
  assumes "keychain this = Keychain dir" "store w dir (''n8n'', ''api_key'') = Some k" "k \<noteq> []"
    and "U (normaliseBaseUrl (store w dir (''n8n'', ''base_url'')) @ path) (params_of opts) = None"
  shows "N8nPlugin_n8nFetch N U this path opts w =
     (Inl TypeError,
      w\<lparr>trace := trace w @ [KeychainGet dir ''n8n'' ''api_key'', KeychainGet dir ''n8n'' ''base_url'']\<rparr>)"
proof -
  have g: "N8nPlugin_getConfig this w = (Inr \<lparr>apiKey = k, baseUrl = normaliseBaseUrl (store w dir (''n8n'', ''base_url''))\<rparr>,
     w\<lparr>trace := trace w @ [KeychainGet dir ''n8n'' ''api_key'', KeychainGet dir ''n8n'' ''base_url'']\<rparr>)"
    using assms(1-3) by (rule n8n_getConfig_ok)
  show ?thesis
    unfolding N8nPlugin_n8nFetch_def g using assms(4) by simp
qed

subsection \<open>Empty bodies\<close>

text \<open>
  C8, as the code has it. For a response with a status in 200..299 and an empty body:
  \<^verbatim>\<open>spotifyFetch\<close> returns the empty object on 204 and on 202; \<^verbatim>\<open>n8nFetch\<close> and
  \<^verbatim>\<open>calFetch\<close> return it on 204 only; \<^verbatim>\<open>gmailFetch\<close> has no such case. Wherever the empty
  object is not returned the envelope goes on to \<^verbatim>\<open>res.json()\<close>, which rejects on the empty
  body. The response \<^verbatim>\<open>n8nFetch\<close> handles is the one to the serialised URL; when the base
  URL followed by the path does not parse it throws the \<^verbatim>\<open>TypeError\<close> of \<^verbatim>\<open>new URL\<close> with
  nothing sent, whatever the network would answer.
\<close>

theorem empty_body_by_envelope:
  assumes "keychain this = Keychain dir" and "ok res" and "body_text res = []"
  shows
   "(store w dir (''spotify'', ''access_token'') = Some t \<and> t \<noteq> [] \<and>
     N (requests (trace w)) (spotify_request path opts t) = Some res \<longrightarrow>
       fst (SpotifyPlugin_spotifyFetch N this path opts retry w) =
         (if status res = 204 \<or> status res = 202 then Inr (JObj []) else Inl SyntaxError)) \<and>
    (store w dir (''n8n'', ''api_key'') = Some k \<and> k \<noteq> [] \<and>
     U (normaliseBaseUrl (store w dir (''n8n'', ''base_url'')) @ path) (params_of opts) = Some href \<and>
     N (requests (trace w))
       (n8n_request \<lparr>apiKey = k, baseUrl = normaliseBaseUrl (store w dir (''n8n'', ''base_url''))\<rparr> href opts) = Some res \<longrightarrow>
       fst (N8nPlugin_n8nFetch N U this path opts w) =
         (if status res = 204 then Inr (JObj []) else Inl SyntaxError)) \<and>
    (store w dir (''n8n'', ''api_key'') = Some k \<and> k \<noteq> [] \<and>
     U (normaliseBaseUrl (store w dir (''n8n'', ''base_url'')) @ path) (params_of opts) = None \<longrightarrow>
       fst (N8nPlugin_n8nFetch N U this path opts w) = Inl TypeError \<and>
       requests (trace (snd (N8nPlugin_n8nFetch N U this path opts w))) = requests (trace w)) \<and>
    (store w dir (''google'', ''access_token'') = Some g \<and> g \<noteq> [] \<and>
     N (requests (trace w)) (google_request CAL_BASE path opts g) = Some res \<longrightarrow>
       fst (GoogleCalendarPlugin_calFetch N this path opts w) =
         (if status res = 204 then Inr (JObj []) else Inl SyntaxError)) \<and>
    (store w dir (''google'', ''access_token'') = Some g \<and> g \<noteq> [] \<and>
     N (requests (trace w)) (google_request GMAIL_BASE path opts g) = Some res \<longrightarrow>
       fst (GmailPlugin_gmailFetch N this path opts w) = Inl SyntaxError)"
proof (intro conjI impI)
  assume a: "store w dir (''spotify'', ''access_token'') = Some t \<and> t \<noteq> [] \<and>
     N (requests (trace w)) (spotify_request path opts t) = Some res"
  have "status res \<noteq> 401" using assms(2) by (simp add: ok_def)
  then show "fst (SpotifyPlugin_spotifyFetch N this path opts retry w) =
         (if status res = 204 \<or> status res = 202 then Inr (JObj []) else Inl SyntaxError)"
    using a assms(2,3)
    by (simp add: spotify_first_request[where N=N, OF assms(1)] spotify_result_def res_json_def Let_def)
next
  assume a: "store w dir (''n8n'', ''api_key'') = Some k \<and> k \<noteq> [] \<and>
     U (normaliseBaseUrl (store w dir (''n8n'', ''base_url'')) @ path) (params_of opts) = Some href \<and>
     N (requests (trace w))
       (n8n_request \<lparr>apiKey = k, baseUrl = normaliseBaseUrl (store w dir (''n8n'', ''base_url''))\<rparr> href opts) = Some res"
  show "fst (N8nPlugin_n8nFetch N U this path opts w) =
         (if status res = 204 then Inr (JObj []) else Inl SyntaxError)"
    using a assms(2,3)
    by (simp add: n8n_response[where N=N and U=U, OF assms(1)] res_json_def)
next
  assume a: "store w dir (''n8n'', ''api_key'') = Some k \<and> k \<noteq> [] \<and>
     U (normaliseBaseUrl (store w dir (''n8n'', ''base_url'')) @ path) (params_of opts) = None"
  show "fst (N8nPlugin_n8nFetch N U this path opts w) = Inl TypeError"
    using a by (simp add: n8n_not_a_url[where N=N and U=U, OF assms(1)])
next
  assume a: "store w dir (''n8n'', ''api_key'') = Some k \<and> k \<noteq> [] \<and>
     U (normaliseBaseUrl (store w dir (''n8n'', ''base_url'')) @ path) (params_of opts) = None"
  show "requests (trace (snd (N8nPlugin_n8nFetch N U this path opts w))) = requests (trace w)"
    using a by (simp add: n8n_not_a_url[where N=N and U=U, OF assms(1)] requests_append)
next
  assume a: "store w dir (''google'', ''access_token'') = Some g \<and> g \<noteq> [] \<and>
     N (requests (trace w)) (google_request CAL_BASE path opts g) = Some res"
  show "fst (GoogleCalendarPlugin_calFetch N this path opts w) =
         (if status res = 204 then Inr (JObj []) else Inl SyntaxError)"
    using a assms(2,3)
    by (simp add: cal_response[where N=N, OF assms(1)] res_json_def)
next
  assume a: "store w dir (''google'', ''access_token'') = Some g \<and> g \<noteq> [] \<and>
     N (requests (trace w)) (google_request GMAIL_BASE path opts g) = Some res"
  show "fst (GmailPlugin_gmailFetch N this path opts w) = Inl SyntaxError"
    using a assms(2,3)
    by (simp add: gmail_response[where N=N, OF assms(1)] res_json_def)
qed

definition no_content :: response where
  "no_content = \<lparr>status = 204, statusText = ''No Content'', body_text = [], body_json = None\<rparr>"

definition all_credentials :: world where
  "all_credentials = world_of [((''spotify'', ''access_token''), ''A''), ((''n8n'', ''api_key''), ''K''),
                               ((''google'', ''access_token''), ''G'')]"

theorem empty_body_by_envelope_witness:
  "fst (SpotifyPlugin_spotifyFetch (\<lambda>h r. Some no_content) (initialize ''/cfg'') ''/me/player/pause''
          (no_options\<lparr>opt_method := Some ''PUT''\<rparr>) True all_credentials) = Inr (JObj []) \<and>
   fst (N8nPlugin_n8nFetch (\<lambda>h r. Some no_content) example_parser (initialize ''/cfg'') ''/me/player/pause''
          (no_options\<lparr>opt_method := Some ''PUT''\<rparr>) all_credentials) = Inr (JObj []) \<and>
   fst (GoogleCalendarPlugin_calFetch (\<lambda>h r. Some no_content) (initialize ''/cfg'') ''/me/player/pause''
          (no_options\<lparr>opt_method := Some ''PUT''\<rparr>) all_credentials) = Inr (JObj []) \<and>
   fst (GmailPlugin_gmailFetch (\<lambda>h r. Some no_content) (initialize ''/cfg'') ''/me/player/pause''
          (no_options\<lparr>opt_method := Some ''PUT''\<rparr>) all_credentials) = Inl SyntaxError"
proof -
  have k: "keychain (initialize ''/cfg'') = Keychain ''/cfg''" by (simp add: initialize_def)
  have o: "ok no_content" "body_text no_content = []" "status no_content = 204"
    by (simp_all add: ok_def no_content_def)
  show ?thesis
    using empty_body_by_envelope[OF k o(1,2), where w=all_credentials and t="''A''"
        and N="\<lambda>h r. Some no_content" and path="''/me/player/pause''"
        and opts="no_options\<lparr>opt_method := Some ''PUT''\<rparr>" and retry=True and k="''K''" and g="''G''"
        and U=example_parser and href="''http://localhost:5678/api/v1/me/player/pause''"] o(3)
    by (simp add: all_credentials_def world_of_def example_parser_def normaliseBaseUrl_def
        stripTrailingSlash_def endsWith_def no_options_def params_of_def)
qed

text \<open>
  C8 as the spec states it fails for \<^verbatim>\<open>gmailFetch\<close>: a 204 with an empty body ends in
  the parse error, not in the empty object.
\<close>

theorem gmailFetch_empty_body_counterexample:
  "fst (GmailPlugin_gmailFetch (\<lambda>h r. Some no_content) (initialize ''/cfg'') ''/messages/m1/trash''
          (no_options\<lparr>opt_method := Some ''POST''\<rparr>) all_credentials) = Inl SyntaxError"
  by (simp add: GmailPlugin_gmailFetch_def GmailPlugin_getToken_def initialize_def all_credentials_def
      world_of_def fetch_def no_content_def ok_def res_json_def)


subsection \<open>Refresh on 401\<close>

text \<open>
  The requests a world's log holds, counted: those to the token endpoint, and the others,
  which are the calls to the service's API.
\<close>

definition token_calls :: "world \<Rightarrow> nat" where
  "token_calls w = length (filter (\<lambda>r. req_url r = SPOTIFY_AUTH @ ''/api/token'') (requests (trace w)))"

lemma spotify_request_not_token: "req_url (spotify_request path opts t) \<noteq> SPOTIFY_AUTH @ ''/api/token''"
  by (simp add: spotify_request_def SPOTIFY_BASE_def SPOTIFY_AUTH_def)

lemma token_request_url: "req_url (token_request rt cid) = SPOTIFY_AUTH @ ''/api/token''"
  by (simp add: token_request_def)

lemma refreshToken_without_credentials:
  assumes "keychain this = Keychain dir"
    and "falsy_str (store w dir (''spotify'', ''refresh_token'')) \<or> falsy_str (store w dir (''spotify'', ''client_id''))"
  shows "SpotifyPlugin_refreshToken N this w =
     (Inr None, w\<lparr>trace := trace w @ [KeychainGet dir ''spotify'' ''refresh_token'',
                                        KeychainGet dir ''spotify'' ''client_id'']\<rparr>)"
  using assms by (auto simp: SpotifyPlugin_refreshToken_def)

text \<open>The log after \<^verbatim>\<open>refreshToken\<close> has read its two records and posted to the token endpoint.\<close>

definition after_token_request :: "string \<Rightarrow> string \<Rightarrow> string \<Rightarrow> world \<Rightarrow> world" where
  "after_token_request dir rt cid w =
     w\<lparr>trace := trace w @ [KeychainGet dir ''spotify'' ''refresh_token'',
                           KeychainGet dir ''spotify'' ''client_id'',
                           Fetch (token_request rt cid)]\<rparr>"

lemma refreshToken_with_credentials:
  assumes "keychain this = Keychain dir"
    and "store w dir (''spotify'', ''refresh_token'') = Some rt" "rt \<noteq> []"
    and "store w dir (''spotify'', ''client_id'') = Some cid" "cid \<noteq> []"
  shows "SpotifyPlugin_refreshToken N this w =
     (case N (requests (trace w)) (token_request rt cid) of
        None \<Rightarrow> (Inl FetchFailed, after_token_request dir rt cid w)
      | Some res \<Rightarrow>
          if \<not> ok res then (Inr None, after_token_request dir rt cid w)
          else
            (case res_json res of
               Inl e \<Rightarrow> (Inl e, after_token_request dir rt cid w)
             | Inr data \<Rightarrow>
                 (case get_prop data ''access_token'' of
                    Inl e \<Rightarrow> (Inl e, after_token_request dir rt cid w)
                  | Inr access_token \<Rightarrow>
                      if truthy_opt access_token then
                        (let w4 = Keychain_set (Keychain dir) ''spotify'' ''access_token''
                                    (js_String (the access_token)) (after_token_request dir rt cid w);
                             new_refresh = opt_prop (Some data) ''refresh_token'';
                             w5 = (if truthy_opt new_refresh
                                   then Keychain_set (Keychain dir) ''spotify'' ''refresh_token''
                                          (js_String (the new_refresh)) w4
                                   else w4)
                         in (Inr access_token, w5))
                      else (Inr None, after_token_request dir rt cid w))))"
  unfolding SpotifyPlugin_refreshToken_def assms(1)
  using assms(2-5)
  by (simp add: falsy_str_def fetch_def requests_append after_token_request_def
      split: option.splits sum.splits)

definition api_calls :: "world \<Rightarrow> nat" where
  "api_calls w = length (filter (\<lambda>r. req_url r \<noteq> SPOTIFY_AUTH @ ''/api/token'') (requests (trace w)))"

lemma spotifyFetch_no_retry:
  "SpotifyPlugin_spotifyFetch N this path opts False w =
     (case SpotifyPlugin_getToken this w of
        (Inl e, w1) \<Rightarrow> (Inl e, w1)
      | (Inr token, w1) \<Rightarrow>
          (case fetch N (spotify_request path opts token) w1 of
             (None, w2) \<Rightarrow> (Inl FetchFailed, w2)
           | (Some res, w2) \<Rightarrow> (spotify_result res, w2)))"
  by (subst SpotifyPlugin_spotifyFetch.simps) (simp split: prod.splits sum.splits option.splits)

lemma spotifyFetch_no_retry_trace:
  assumes "keychain this = Keychain dir"
  shows "trace (snd (SpotifyPlugin_spotifyFetch N this path opts False w)) =
     trace w @ KeychainGet dir ''spotify'' ''access_token'' #
       (case store w dir (''spotify'', ''access_token'') of
          None \<Rightarrow> []
        | Some t \<Rightarrow> if t = [] then [] else [Fetch (spotify_request path opts t)])"
  unfolding spotifyFetch_no_retry SpotifyPlugin_getToken_def assms
  by (simp add: fetch_def split: option.splits)

lemma spotifyFetch_no_retry_store:
  assumes "keychain this = Keychain dir"
  shows "store (snd (SpotifyPlugin_spotifyFetch N this path opts False w)) = store w"
  unfolding spotifyFetch_no_retry SpotifyPlugin_getToken_def assms
  by (simp add: fetch_def split: option.splits)

lemma refreshToken_Some:
  assumes "keychain this = Keychain dir"
    and "SpotifyPlugin_refreshToken N this w = (Inr (Some v), w')"
  shows "truthy v \<and> store w' dir (''spotify'', ''access_token'') = Some (js_String v)"
proof (cases "falsy_str (store w dir (''spotify'', ''refresh_token'')) \<or> falsy_str (store w dir (''spotify'', ''client_id''))")
  case True
  then show ?thesis using assms(2) refreshToken_without_credentials[where N=N, OF assms(1) True] by simp
next
  case False
  then obtain rt cid where c: "store w dir (''spotify'', ''refresh_token'') = Some rt" "rt \<noteq> []"
     "store w dir (''spotify'', ''client_id'') = Some cid" "cid \<noteq> []"
    by (auto simp: falsy_str_def split: option.splits)
  show ?thesis
    using assms(2) unfolding refreshToken_with_credentials[where N=N, OF assms(1) c]
    by (auto simp: Let_def truthy_opt_def split: option.splits if_splits sum.splits)
qed

lemma token_calls_refreshToken:
  assumes "keychain this = Keychain dir"
  shows "token_calls (snd (SpotifyPlugin_refreshToken N this w)) =
     (if falsy_str (store w dir (''spotify'', ''refresh_token'')) \<or> falsy_str (store w dir (''spotify'', ''client_id''))
      then token_calls w else token_calls w + 1)"
proof (cases "falsy_str (store w dir (''spotify'', ''refresh_token'')) \<or> falsy_str (store w dir (''spotify'', ''client_id''))")
  case True
  then show ?thesis using refreshToken_without_credentials[where N=N, OF assms(1) True]
    by (simp add: token_calls_def requests_append)
next
  case False
  then obtain rt cid where c: "store w dir (''spotify'', ''refresh_token'') = Some rt" "rt \<noteq> []"
     "store w dir (''spotify'', ''client_id'') = Some cid" "cid \<noteq> []"
    by (auto simp: falsy_str_def split: option.splits)
  have a: "token_calls (after_token_request dir rt cid w) = token_calls w + 1"
    by (simp add: token_calls_def after_token_request_def requests_append token_request_url)
  show ?thesis
    using False a unfolding refreshToken_with_credentials[where N=N, OF assms(1) c]
    by (auto simp: Let_def token_calls_def requests_append split: option.splits if_splits sum.splits)
qed

lemma api_calls_refreshToken:
  assumes "keychain this = Keychain dir"
  shows "api_calls (snd (SpotifyPlugin_refreshToken N this w)) = api_calls w"
proof (cases "falsy_str (store w dir (''spotify'', ''refresh_token'')) \<or> falsy_str (store w dir (''spotify'', ''client_id''))")
  case True
  then show ?thesis using refreshToken_without_credentials[where N=N, OF assms(1) True]
    by (simp add: api_calls_def requests_append)
next
  case False
  then obtain rt cid where c: "store w dir (''spotify'', ''refresh_token'') = Some rt" "rt \<noteq> []"
     "store w dir (''spotify'', ''client_id'') = Some cid" "cid \<noteq> []"
    by (auto simp: falsy_str_def split: option.splits)
  have a: "api_calls (after_token_request dir rt cid w) = api_calls w"
    by (simp add: api_calls_def after_token_request_def requests_append token_request_url)
  show ?thesis
    using False a unfolding refreshToken_with_credentials[where N=N, OF assms(1) c]
    by (auto simp: Let_def api_calls_def requests_append split: option.splits if_splits sum.splits)
qed

lemma api_calls_no_retry:
  assumes "keychain this = Keychain dir"
  shows "api_calls (snd (SpotifyPlugin_spotifyFetch N this path opts False w)) =
     (if falsy_str (store w dir (''spotify'', ''access_token'')) then api_calls w else api_calls w + 1)"
  by (simp add: api_calls_def spotifyFetch_no_retry_trace[OF assms] requests_append
      spotify_request_not_token falsy_str_def split: option.splits)

lemma token_calls_no_retry:
  assumes "keychain this = Keychain dir"
  shows "token_calls (snd (SpotifyPlugin_spotifyFetch N this path opts False w)) = token_calls w"
  by (simp add: token_calls_def spotifyFetch_no_retry_trace[OF assms] requests_append
      spotify_request_not_token split: option.splits)

lemma spotifyFetch_refresh_parts:
  assumes kc: "keychain this = Keychain dir"
    and tok: "store w dir (''spotify'', ''access_token'') = Some t" "t \<noteq> []"
    and rt: "store w dir (''spotify'', ''refresh_token'') = Some rt" "rt \<noteq> []"
    and first: "N (requests (trace w)) (spotify_request path opts t) = Some res" "status res = 401"
    and w2: "w2 = w\<lparr>trace := trace w @ [KeychainGet dir ''spotify'' ''access_token'',
                                          Fetch (spotify_request path opts t)]\<rparr>"
    and refreshed: "SpotifyPlugin_refreshToken N this w2 = (refreshed, w3)"
    and final: "SpotifyPlugin_spotifyFetch N this path opts True w = (result, w')"
  shows "token_calls w' \<le> token_calls w + 1"
    and "\<not> falsy_str (store w dir (''spotify'', ''client_id'')) \<longrightarrow> token_calls w' = token_calls w + 1"
    and "(\<exists>new. refreshed = Inr (Some (JStr new))) \<longrightarrow> api_calls w' = api_calls w + 2"
    and "refreshed = Inr None \<longrightarrow> result = Inl spotify_refresh_failed \<and> api_calls w' = api_calls w + 1"
    and "\<forall>e. refreshed = Inl e \<longrightarrow> result = Inl e \<and> api_calls w' = api_calls w + 1"
    and "\<forall>g. store w dir (''google'', ''access_token'') = Some g \<and> g \<noteq> [] \<and>
             N (requests (trace w)) (google_request GMAIL_BASE path opts g) = Some res \<longrightarrow>
           GmailPlugin_gmailFetch N this path opts w =
             (Inl google_token_expired,
              w\<lparr>trace := trace w @ [KeychainGet dir ''google'' ''access_token'',
                                    Fetch (google_request GMAIL_BASE path opts g)]\<rparr>)"
proof -
  have step: "SpotifyPlugin_spotifyFetch N this path opts True w =
      (case refreshed of
         Inl e \<Rightarrow> (Inl e, w3)
       | Inr newToken \<Rightarrow>
           if truthy_opt newToken then SpotifyPlugin_spotifyFetch N this path opts False w3
           else (Inl spotify_refresh_failed, w3))"
    using first(2) refreshed
    by (simp add: spotify_first_request[where N=N, OF kc tok first(1)] w2[symmetric] Let_def split: sum.splits)
  have t2: "token_calls w2 = token_calls w" and a2: "api_calls w2 = api_calls w + 1"
    by (simp_all add: w2 token_calls_def api_calls_def requests_append spotify_request_not_token)
  have s2: "store w2 = store w" by (simp add: w2)
  have t3: "token_calls w3 =
      (if falsy_str (store w dir (''spotify'', ''refresh_token'')) \<or> falsy_str (store w dir (''spotify'', ''client_id''))
       then token_calls w else token_calls w + 1)"
    using token_calls_refreshToken[where N=N, OF kc, of w2] refreshed by (simp add: t2 s2)
  have a3: "api_calls w3 = api_calls w + 1"
    using api_calls_refreshToken[where N=N, OF kc, of w2] refreshed by (simp add: a2)
  have w': "w' = snd (SpotifyPlugin_spotifyFetch N this path opts True w)"
    and result: "result = fst (SpotifyPlugin_spotifyFetch N this path opts True w)"
    using final by simp_all
  have tw: "token_calls w' = token_calls w3"
    unfolding w' step using token_calls_no_retry[where N=N, OF kc, of path opts w3]
    by (simp split: sum.splits)
  show "token_calls w' \<le> token_calls w + 1" using tw t3 by simp
  show "\<not> falsy_str (store w dir (''spotify'', ''client_id'')) \<longrightarrow> token_calls w' = token_calls w + 1"
    using tw t3 rt by (simp add: falsy_str_def)
  show "(\<exists>new. refreshed = Inr (Some (JStr new))) \<longrightarrow> api_calls w' = api_calls w + 2"
  proof
    assume "\<exists>new. refreshed = Inr (Some (JStr new))"
    then obtain new where n: "refreshed = Inr (Some (JStr new))" by blast
    from refreshToken_Some[OF kc refreshed[unfolded n]]
    have "new \<noteq> []" "store w3 dir (''spotify'', ''access_token'') = Some new" by simp_all
    then have "api_calls (snd (SpotifyPlugin_spotifyFetch N this path opts False w3)) = api_calls w3 + 1"
      by (simp add: api_calls_no_retry[OF kc] falsy_str_def)
    moreover have "SpotifyPlugin_spotifyFetch N this path opts True w = SpotifyPlugin_spotifyFetch N this path opts False w3"
      using step n \<open>new \<noteq> []\<close> by (simp add: truthy_opt_def)
    ultimately show "api_calls w' = api_calls w + 2" using w' a3 by simp
  qed
  show "refreshed = Inr None \<longrightarrow> result = Inl spotify_refresh_failed \<and> api_calls w' = api_calls w + 1"
    unfolding w' result step using a3 by (simp add: truthy_opt_def)
  show "\<forall>e. refreshed = Inl e \<longrightarrow> result = Inl e \<and> api_calls w' = api_calls w + 1"
    unfolding w' result step using a3 by simp
  show "\<forall>g. store w dir (''google'', ''access_token'') = Some g \<and> g \<noteq> [] \<and>
             N (requests (trace w)) (google_request GMAIL_BASE path opts g) = Some res \<longrightarrow>
           GmailPlugin_gmailFetch N this path opts w =
             (Inl google_token_expired,
              w\<lparr>trace := trace w @ [KeychainGet dir ''google'' ''access_token'',
                                    Fetch (google_request GMAIL_BASE path opts g)]\<rparr>)"
    using first(2) by (auto simp: gmail_response[where N=N, OF kc] ok_def)
qed


text \<open>
  C2, as the code has it. A \<^verbatim>\<open>spotifyFetch\<close> call whose first response is 401, with a
  refresh token stored, calls \<^verbatim>\<open>refreshToken\<close> once (\<open>refreshed\<close> is what it returns): at
  most one request goes to the token endpoint, exactly one when a client id is stored too.
  When the refresh returns a token the call is retried once, so the API sees two requests;
  when it returns \<^verbatim>\<open>null\<close> the call fails with the token-expired error and there is no
  retry; when the token request itself is rejected, that error is the call's. The retry
  runs with \<^verbatim>\<open>retry = false\<close> and cannot refresh again. \<^verbatim>\<open>gmailFetch\<close> has no refresh: on
  401 it fails with the token-expired error after its one request.
\<close>

theorem spotifyFetch_refresh_once:
  assumes "keychain this = Keychain dir"
    and "store w dir (''spotify'', ''access_token'') = Some t" "t \<noteq> []"
    and "store w dir (''spotify'', ''refresh_token'') = Some rt" "rt \<noteq> []"
    and "N (requests (trace w)) (spotify_request path opts t) = Some res" "status res = 401"
    and "w2 = w\<lparr>trace := trace w @ [KeychainGet dir ''spotify'' ''access_token'',
                                      Fetch (spotify_request path opts t)]\<rparr>"
    and "SpotifyPlugin_refreshToken N this w2 = (refreshed, w3)"
    and "SpotifyPlugin_spotifyFetch N this path opts True w = (result, w')"
  shows "token_calls w' \<le> token_calls w + 1 \<and>
    (\<not> falsy_str (store w dir (''spotify'', ''client_id'')) \<longrightarrow> token_calls w' = token_calls w + 1) \<and>
    ((\<exists>new. refreshed = Inr (Some (JStr new))) \<longrightarrow> api_calls w' = api_calls w + 2) \<and>
    (refreshed = Inr None \<longrightarrow> result = Inl spotify_refresh_failed \<and> api_calls w' = api_calls w + 1) \<and>
    (\<forall>e. refreshed = Inl e \<longrightarrow> result = Inl e \<and> api_calls w' = api_calls w + 1) \<and>
    (\<forall>g. store w dir (''google'', ''access_token'') = Some g \<and> g \<noteq> [] \<and>
          N (requests (trace w)) (google_request GMAIL_BASE path opts g) = Some res \<longrightarrow>
        GmailPlugin_gmailFetch N this path opts w =
          (Inl google_token_expired,
           w\<lparr>trace := trace w @ [KeychainGet dir ''google'' ''access_token'',
                                 Fetch (google_request GMAIL_BASE path opts g)]\<rparr>))"
  using spotifyFetch_refresh_parts[where N=N, OF assms] by blast

text \<open>
  The spec's refresh scenario: the store holds access token A, refresh token R and client
  id C; the API answers 401 to token A and \<^verbatim>\<open>{ok: true}\<close> to token B; the token endpoint
  answers with access token B.
\<close>

definition unauthorized :: response where
  "unauthorized = \<lparr>status = 401, statusText = ''Unauthorized'', body_text = [], body_json = None\<rparr>"

definition token_B :: response where
  \<open>token_B = \<lparr>status = 200, statusText = ''OK'', body_text = ''{"access_token":"B"}'',
              body_json = Some (JObj [(''access_token'', JStr ''B'')])\<rparr>\<close>

definition ok_true :: response where
  \<open>ok_true = \<lparr>status = 200, statusText = ''OK'', body_text = ''{"ok":true}'',
              body_json = Some (JObj [(''ok'', JBool True)])\<rparr>\<close>

definition scenario_network :: network where
  "scenario_network hist req =
     (if req_url req = SPOTIFY_AUTH @ ''/api/token'' then Some token_B
      else if map_of (req_headers req) ''Authorization'' = Some ''Bearer B'' then Some ok_true
      else Some unauthorized)"

definition scenario_world :: world where
  "scenario_world = world_of [((''spotify'', ''access_token''), ''A''),
                              ((''spotify'', ''refresh_token''), ''R''),
                              ((''spotify'', ''client_id''), ''C''),
                              ((''google'', ''access_token''), ''A''),
                              ((''google'', ''refresh_token''), ''R''),
                              ((''google'', ''client_id''), ''C'')]"

lemmas scenario_defs = scenario_world_def world_of_def scenario_network_def initialize_def
  unauthorized_def token_B_def ok_true_def no_options_def
  spotify_request_def token_request_def google_request_def
  SPOTIFY_AUTH_def SPOTIFY_BASE_def GMAIL_BASE_def CAL_BASE_def
  params_of_def method_of_def body_of_def

lemmas spotify_defs = SpotifyPlugin_spotifyFetch.simps[of _ _ _ _ True] spotifyFetch_no_retry
  SpotifyPlugin_getToken_def SpotifyPlugin_refreshToken_def spotify_result_def
  fetch_def falsy_str_def truthy_opt_def ok_def res_json_def Let_def

lemma scenario_result:
  "fst (SpotifyPlugin_spotifyFetch scenario_network (initialize ''/cfg'') ''/me'' no_options True scenario_world)
     = Inr (JObj [(''ok'', JBool True)])"
  by (simp add: scenario_defs spotify_defs)

theorem spotifyFetch_refresh_once_witness:
  "token_calls (snd (SpotifyPlugin_spotifyFetch scenario_network (initialize ''/cfg'') ''/me'' no_options True scenario_world)) = 1 \<and>
   api_calls (snd (SpotifyPlugin_spotifyFetch scenario_network (initialize ''/cfg'') ''/me'' no_options True scenario_world)) = 2 \<and>
   fst (SpotifyPlugin_spotifyFetch scenario_network (initialize ''/cfg'') ''/me'' no_options True scenario_world)
     = Inr (JObj [(''ok'', JBool True)]) \<and>
   fst (GmailPlugin_gmailFetch scenario_network (initialize ''/cfg'') ''/me'' no_options scenario_world)
     = Inl google_token_expired"
proof -
  let ?this = "initialize ''/cfg''"
  let ?w2 = "scenario_world\<lparr>trace := trace scenario_world @
      [KeychainGet ''/cfg'' ''spotify'' ''access_token'', Fetch (spotify_request ''/me'' no_options ''A'')]\<rparr>"
  let ?r = "SpotifyPlugin_refreshToken scenario_network ?this ?w2"
  let ?f = "SpotifyPlugin_spotifyFetch scenario_network ?this ''/me'' no_options True scenario_world"
  have kc: "keychain ?this = Keychain ''/cfg''" by (simp add: initialize_def)
  have st: "store scenario_world ''/cfg'' (''spotify'', ''access_token'') = Some ''A''"
    "store scenario_world ''/cfg'' (''spotify'', ''refresh_token'') = Some ''R''"
    "\<not> falsy_str (store scenario_world ''/cfg'' (''spotify'', ''client_id''))"
    "store scenario_world ''/cfg'' (''google'', ''access_token'') = Some ''A''"
    by (simp_all add: scenario_defs falsy_str_def)
  have n: "scenario_network (requests (trace scenario_world)) (spotify_request ''/me'' no_options ''A'') = Some unauthorized"
    "scenario_network (requests (trace scenario_world)) (google_request GMAIL_BASE ''/me'' no_options ''A'') = Some unauthorized"
    "status unauthorized = 401"
    by (simp_all add: scenario_defs)
  have r: "fst ?r = Inr (Some (JStr ''B''))"
    by (simp add: scenario_defs spotify_defs)
  have z: "token_calls scenario_world = 0" "api_calls scenario_world = 0"
    by (simp_all add: token_calls_def api_calls_def scenario_defs)
  have "''A'' \<noteq> ([]::string)" "''R'' \<noteq> ([]::string)" by simp_all
  from spotifyFetch_refresh_once[where N=scenario_network and ?w2.0="?w2" and refreshed="fst ?r" and ?w3.0="snd ?r"
      and result="fst ?f" and w'="snd ?f", OF kc st(1) this(1) st(2) this(2) n(1) n(3)]
  show ?thesis using st(3,4) n(2) r z scenario_result by (simp add: scenario_defs)
qed

text \<open>
  C2 as the spec states it fails for \<^verbatim>\<open>gmailFetch\<close>: with a refresh token stored and a 401
  answer, the one request of the call is the API request; nothing goes to a token endpoint
  and nothing is retried.
\<close>

theorem gmailFetch_no_refresh_counterexample:
  "fst (GmailPlugin_gmailFetch scenario_network (initialize ''/cfg'') ''/messages'' no_options scenario_world)
     = Inl google_token_expired \<and>
   requests (trace (snd (GmailPlugin_gmailFetch scenario_network (initialize ''/cfg'') ''/messages'' no_options scenario_world)))
     = [google_request GMAIL_BASE ''/messages'' no_options ''A'']"
  by (simp add: GmailPlugin_gmailFetch_def GmailPlugin_getToken_def fetch_def ok_def scenario_defs)

subsection \<open>Two calls in flight\<close>

text \<open>
  The host runs calls cooperatively: a call runs until it awaits, and another call may run
  before it resumes. \<^verbatim>\<open>spotifyFetch\<close> awaits the response of its request, so a call falls
  into the part up to the \<^verbatim>\<open>fetch\<close> (lines 131 to 144) and the part that handles the
  response (lines 146 to 160).
\<close>

definition spotifyFetch_begin ::
  "network \<Rightarrow> plugin \<Rightarrow> string \<Rightarrow> options \<Rightarrow> world \<Rightarrow> (js_error + response) \<times> world" where
  "spotifyFetch_begin N this path opts w =
     (case SpotifyPlugin_getToken this w of
        (Inl e, w1) \<Rightarrow> (Inl e, w1)
      | (Inr token, w1) \<Rightarrow>
          (case fetch N (spotify_request path opts token) w1 of
             (None, w2) \<Rightarrow> (Inl FetchFailed, w2)
           | (Some res, w2) \<Rightarrow> (Inr res, w2)))"

definition spotifyFetch_resume ::
  "network \<Rightarrow> plugin \<Rightarrow> string \<Rightarrow> options \<Rightarrow> bool \<Rightarrow> response \<Rightarrow> world \<Rightarrow> (js_error + json) \<times> world" where
  "spotifyFetch_resume N this path opts retry res w =
     (if status res = 401 \<and> retry then
        (case SpotifyPlugin_refreshToken N this w of
           (Inl e, w3) \<Rightarrow> (Inl e, w3)
         | (Inr newToken, w3) \<Rightarrow>
             if truthy_opt newToken
             then SpotifyPlugin_spotifyFetch N this path opts False w3
             else (Inl spotify_refresh_failed, w3))
      else (spotify_result res, w))"

definition spotifyFetch_finish ::
  "network \<Rightarrow> plugin \<Rightarrow> string \<Rightarrow> options \<Rightarrow> bool \<Rightarrow> js_error + response \<Rightarrow> world \<Rightarrow> (js_error + json) \<times> world" where
  "spotifyFetch_finish N this path opts retry r w =
     (case r of Inl e \<Rightarrow> (Inl e, w) | Inr res \<Rightarrow> spotifyFetch_resume N this path opts retry res w)"

text \<open>
  One schedule of two calls A and B on the same plugin: A sends its request, B sends its
  request, A handles its response to the end, then B handles its response.
\<close>

definition two_calls ::
  "network \<Rightarrow> plugin \<Rightarrow> string \<Rightarrow> options \<Rightarrow> string \<Rightarrow> options \<Rightarrow> world \<Rightarrow>
     (js_error + json) \<times> (js_error + json) \<times> world" where
  "two_calls N this pathA optsA pathB optsB w =
     (case spotifyFetch_begin N this pathA optsA w of (a, w1) \<Rightarrow>
      case spotifyFetch_begin N this pathB optsB w1 of (b, w2) \<Rightarrow>
      case spotifyFetch_finish N this pathA optsA True a w2 of (resultA, w3) \<Rightarrow>
      case spotifyFetch_finish N this pathB optsB True b w3 of (resultB, w4) \<Rightarrow>
        (resultA, resultB, w4))"

text \<open>Run without another call in between, the two parts are the call.\<close>

lemma spotifyFetch_begin_finish:
  "SpotifyPlugin_spotifyFetch N this path opts retry w =
     (case spotifyFetch_begin N this path opts w of (r, w1) \<Rightarrow> spotifyFetch_finish N this path opts retry r w1)"
proof (cases "SpotifyPlugin_getToken this w")
  case (Pair r w1)
  show ?thesis
  proof (cases r)
    case (Inl e)
    with Pair show ?thesis
      by (subst SpotifyPlugin_spotifyFetch.simps)
         (simp add: spotifyFetch_begin_def spotifyFetch_finish_def)
  next
    case (Inr token)
    show ?thesis
    proof (cases "fetch N (spotify_request path opts token) w1")
      case f: (Pair x w2)
      show ?thesis
      proof (cases x)
        case None
        with Pair Inr f show ?thesis
          by (subst SpotifyPlugin_spotifyFetch.simps)
             (simp add: spotifyFetch_begin_def spotifyFetch_finish_def)
      next
        case (Some res)
        with Pair Inr f show ?thesis
          by (subst SpotifyPlugin_spotifyFetch.simps)
             (simp add: spotifyFetch_begin_def spotifyFetch_finish_def spotifyFetch_resume_def)
      qed
    qed
  qed
qed

text \<open>
  C3, as the code has it. There is no latch: a call that resumes with a 401, with its
  retry still allowed and a refresh token and client id stored, posts its own request to
  the token endpoint, whatever the log already holds of other calls' refreshes.
\<close>

theorem every_401_observer_refreshes:
  assumes "keychain this = Keychain dir"
    and "store w dir (''spotify'', ''refresh_token'') = Some rt" "rt \<noteq> []"
    and "store w dir (''spotify'', ''client_id'') = Some cid" "cid \<noteq> []"
    and "status res = 401"
  shows "token_calls (snd (spotifyFetch_resume N this path opts True res w)) = token_calls w + 1"
proof -
  have t: "token_calls (snd (SpotifyPlugin_refreshToken N this w)) = token_calls w + 1"
    using assms(2-5) by (simp add: token_calls_refreshToken[OF assms(1)] falsy_str_def)
  show ?thesis
  proof (cases "SpotifyPlugin_refreshToken N this w")
    case (Pair r w3)
    then show ?thesis
      using t assms(6) token_calls_no_retry[where N=N, OF assms(1)]
      by (cases r) (simp_all add: spotifyFetch_resume_def)
  qed
qed

theorem every_401_observer_refreshes_witness:
  "token_calls (snd (spotifyFetch_resume scenario_network (initialize ''/cfg'') ''/me'' no_options True
                       unauthorized scenario_world)) = 1"
proof -
  have kc: "keychain (initialize ''/cfg'') = Keychain ''/cfg''" by (simp add: initialize_def)
  have st: "store scenario_world ''/cfg'' (''spotify'', ''refresh_token'') = Some ''R''"
    "store scenario_world ''/cfg'' (''spotify'', ''client_id'') = Some ''C''"
    "status unauthorized = 401" "token_calls scenario_world = 0"
    by (simp_all add: scenario_defs token_calls_def)
  have ne: "''R'' \<noteq> ([]::string)" "''C'' \<noteq> ([]::string)" by simp_all
  from every_401_observer_refreshes[where N=scenario_network, OF kc st(1) ne(1) st(2) ne(2) st(3)]
  show ?thesis by (simp add: st(4))
qed

text \<open>
  C3 as the spec states it fails: in the refresh scenario, with two calls in flight that
  both receive 401, each runs \<^verbatim>\<open>refreshToken\<close> and two requests reach the token endpoint.
\<close>

theorem two_observers_two_refreshes_counterexample:
  "fst (spotifyFetch_begin scenario_network (initialize ''/cfg'') ''/me'' no_options scenario_world)
     = Inr unauthorized \<and>
   fst (spotifyFetch_begin scenario_network (initialize ''/cfg'') ''/me/player'' no_options
          (snd (spotifyFetch_begin scenario_network (initialize ''/cfg'') ''/me'' no_options scenario_world)))
     = Inr unauthorized \<and>
   token_calls (snd (snd (two_calls scenario_network (initialize ''/cfg'') ''/me'' no_options
                           ''/me/player'' no_options scenario_world))) = 2"
  by (simp add: two_calls_def spotifyFetch_begin_def spotifyFetch_finish_def spotifyFetch_resume_def
      scenario_defs spotify_defs token_calls_def)

subsection \<open>The refreshed token is stored before it is used\<close>















subsection \<open>The Google token is shared\<close>

text \<open>
  C7, as the code has it. The Gmail and the Calendar plugin bind their keychains to the
  same configuration directory and both read \<open>google / access_token\<close>: a non-empty value
  that one plugin's keychain sets is what the other plugin's \<^verbatim>\<open>getToken\<close> returns.
\<close>

theorem google_token_shared:
  assumes "keychain gmail = Keychain dir" and "keychain gcal = Keychain dir" and "v \<noteq> []"
  shows "fst (GoogleCalendarPlugin_getToken gcal
                (Keychain_set (keychain gmail) ''google'' ''access_token'' v w)) = Inr v \<and>
         fst (GmailPlugin_getToken gmail
                (Keychain_set (keychain gcal) ''google'' ''access_token'' v w)) = Inr v"
  using assms by (simp add: GoogleCalendarPlugin_getToken_def GmailPlugin_getToken_def)

theorem google_token_shared_witness:
  "fst (GoogleCalendarPlugin_getToken (initialize ''/cfg'')
          (Keychain_set (keychain (initialize ''/cfg'')) ''google'' ''access_token'' ''T'' (world_of []))) = Inr ''T'' \<and>
   fst (GmailPlugin_getToken (initialize ''/cfg'')
          (Keychain_set (keychain (initialize ''/cfg'')) ''google'' ''access_token'' ''T'' (world_of []))) = Inr ''T''"
proof -
  have kc: "keychain (initialize ''/cfg'') = Keychain ''/cfg''" by (simp add: initialize_def)
  have ne: "''T'' \<noteq> ([]::string)" by simp
  from google_token_shared[OF kc kc ne] show ?thesis by simp
qed

text \<open>
  C7 as the spec states it, for every value, fails at the empty string: \<^verbatim>\<open>getToken\<close> takes
  a falsy token for a missing one and throws.
\<close>

theorem google_token_empty_counterexample:
  "fst (GoogleCalendarPlugin_getToken (initialize ''/cfg'')
          (Keychain_set (keychain (initialize ''/cfg'')) ''google'' ''access_token'' '''' (world_of [])))
     = Inl google_not_authenticated"
  by (simp add: GoogleCalendarPlugin_getToken_def initialize_def world_of_def)


unbundle bit_operations_syntax

subsection \<open>Platform functions: UTF-8, SHA-1, HMAC, base64, percent-encoding\<close>

text \<open>
  These are functions of the JavaScript platform (\<^verbatim>\<open>Buffer\<close>, \<^verbatim>\<open>crypto\<close>,
  \<^verbatim>\<open>encodeURIComponent\<close>), written here from their standards: RFC 3629, RFC 3174, RFC 2104,
  RFC 4648 and ECMA-262. Bytes and 32-bit words are integers, with the wrap-around at
  \<open>2 ^ 32\<close> written out.
\<close>

definition utf8 :: "string \<Rightarrow> int list" where
  "utf8 s = concat (map (\<lambda>c. let n = of_char c :: int
                             in if n < 128 then [n] else [192 + n div 64, 128 + n mod 64]) s)"

definition rotl :: "nat \<Rightarrow> int \<Rightarrow> int" where
  "rotl n x = (x * 2 ^ n) mod 4294967296 + x div 2 ^ (32 - n)"

definition not32 :: "int \<Rightarrow> int" where
  "not32 x = 4294967295 - x"

definition add32 :: "int \<Rightarrow> int \<Rightarrow> int" where
  "add32 x y = (x + y) mod 4294967296"

fun words_of :: "int list \<Rightarrow> int list" where
  "words_of (a # b # c # d # rest) = (((a * 256 + b) * 256 + c) * 256 + d) # words_of rest"
| "words_of bs = []"

definition sha1_f :: "nat \<Rightarrow> int \<Rightarrow> int \<Rightarrow> int \<Rightarrow> int" where
  "sha1_f t b c d =
     (if t < 20 then (b AND c) OR (not32 b AND d)
      else if t < 40 then b XOR c XOR d
      else if t < 60 then (b AND c) OR (b AND d) OR (c AND d)
      else b XOR c XOR d)"

definition sha1_k :: "nat \<Rightarrow> int" where
  "sha1_k t = (if t < 20 then 0x5A827999 else if t < 40 then 0x6ED9EBA1
               else if t < 60 then 0x8F1BBCDC else 0xCA62C1D6)"

text \<open>
  The 80 rounds of one block: \<open>ws\<close> is the message schedule so far, \<open>t\<close> the round, and
  the five registers are threaded through.
\<close>

fun sha1_rounds ::
  "nat \<Rightarrow> nat \<Rightarrow> int list \<Rightarrow> int \<times> int \<times> int \<times> int \<times> int \<Rightarrow> int \<times> int \<times> int \<times> int \<times> int" where
  "sha1_rounds 0 t ws s = s"
| "sha1_rounds (Suc n) t ws (a, b, c, d, e) =
     (let wt = (if t < 16 then ws ! t
                else rotl 1 (ws ! (t - 3) XOR ws ! (t - 8) XOR ws ! (t - 14) XOR ws ! (t - 16)));
          ws' = (if t < 16 then ws else ws @ [wt]);
          tmp = add32 (add32 (add32 (add32 (rotl 5 a) (sha1_f t b c d)) e) (sha1_k t)) wt
      in sha1_rounds n (Suc t) ws' (tmp, a, rotl 30 b, c, d))"

definition sha1_block ::
  "int \<times> int \<times> int \<times> int \<times> int \<Rightarrow> int list \<Rightarrow> int \<times> int \<times> int \<times> int \<times> int" where
  "sha1_block h ws =
     (case h of (h0, h1, h2, h3, h4) \<Rightarrow>
      case sha1_rounds 80 0 ws h of (a, b, c, d, e) \<Rightarrow>
        (add32 h0 a, add32 h1 b, add32 h2 c, add32 h3 d, add32 h4 e))"

fun blocks16 :: "nat \<Rightarrow> int list \<Rightarrow> int list list" where
  "blocks16 0 ws = []"
| "blocks16 (Suc n) ws = take 16 ws # blocks16 n (drop 16 ws)"

definition sha1_pad :: "int list \<Rightarrow> int list" where
  "sha1_pad m =
     (let l = length m; k = (119 - l mod 64) mod 64; bits = 8 * int l
      in m @ [128] @ replicate k 0 @ map (\<lambda>i. (bits div 256 ^ (7 - i)) mod 256) [0..<8])"

definition word_bytes :: "int \<Rightarrow> int list" where
  "word_bytes x = [x div 16777216, (x div 65536) mod 256, (x div 256) mod 256, x mod 256]"

definition sha1 :: "int list \<Rightarrow> int list" where
  "sha1 m =
     (let ws = words_of (sha1_pad m)
      in case foldl sha1_block (0x67452301, 0xEFCDAB89, 0x98BADCFE, 0x10325476, 0xC3D2E1F0)
                (blocks16 (length ws div 16) ws) of
           (h0, h1, h2, h3, h4) \<Rightarrow>
             word_bytes h0 @ word_bytes h1 @ word_bytes h2 @ word_bytes h3 @ word_bytes h4)"

definition hmac_sha1 :: "int list \<Rightarrow> int list \<Rightarrow> int list" where
  "hmac_sha1 key msg =
     (let k0 = (if 64 < length key then sha1 key else key);
          k = k0 @ replicate (64 - length k0) 0
      in sha1 (map (\<lambda>b. b XOR 0x5C) k @ sha1 (map (\<lambda>b. b XOR 0x36) k @ msg)))"

definition b64_alphabet :: string where
  "b64_alphabet = ''ABCDEFGHIJKLMNOPQRSTUVWXYZabcdefghijklmnopqrstuvwxyz0123456789+/''"

definition b64_char :: "int \<Rightarrow> char" where
  "b64_char n = b64_alphabet ! nat n"

fun base64 :: "int list \<Rightarrow> string" where
  "base64 (a # b # c # rest) =
     [b64_char (a div 4), b64_char ((a mod 4) * 16 + b div 16),
      b64_char ((b mod 16) * 4 + c div 64), b64_char (c mod 64)] @ base64 rest"
| "base64 [a, b] =
     [b64_char (a div 4), b64_char ((a mod 4) * 16 + b div 16), b64_char ((b mod 16) * 4), CHR ''='']"
| "base64 [a] = [b64_char (a div 4), b64_char ((a mod 4) * 16), CHR ''='', CHR ''='']"
| "base64 [] = []"

text \<open>\<^verbatim>\<open>crypto.createHmac('sha1', key).update(msg).digest('base64')\<close>\<close>

definition hmac_sha1_base64 :: "string \<Rightarrow> string \<Rightarrow> string" where
  "hmac_sha1_base64 key msg = base64 (hmac_sha1 (utf8 key) (utf8 msg))"

definition hex_digit :: "int \<Rightarrow> char" where
  "hex_digit n = ''0123456789ABCDEF'' ! nat n"

definition unreserved :: "char \<Rightarrow> bool" where
  "unreserved c =
     (let n = of_char c :: nat
      in (65 \<le> n \<and> n \<le> 90) \<or> (97 \<le> n \<and> n \<le> 122) \<or> (48 \<le> n \<and> n \<le> 57) \<or>
         c \<in> set ''-_.!~*'' \<or> n = 39 \<or> c \<in> set ''()'')"

text \<open>
  \<^verbatim>\<open>encodeURIComponent\<close>: letters, digits and \<^verbatim>\<open>- _ . ! ~ * ' ( )\<close> stay; every other
  character becomes the percent-encoded bytes of its UTF-8 form.
\<close>

definition encodeURIComponent :: "string \<Rightarrow> string" where
  "encodeURIComponent s =
     concat (map (\<lambda>c. if unreserved c then [c]
                       else concat (map (\<lambda>b. [CHR ''%'', hex_digit (b div 16), hex_digit (b mod 16)])
                                        (utf8 [c]))) s)"

text \<open>\<^verbatim>\<open>toUpperCase\<close>, on the ASCII letters; the methods the plugin passes are literals.\<close>

definition toUpperCase :: "string \<Rightarrow> string" where
  "toUpperCase s = map (\<lambda>c. let n = of_char c :: nat
                             in if 97 \<le> n \<and> n \<le> 122 then char_of (n - 32) else c) s"

text \<open>The order of \<^verbatim>\<open>Array.prototype.sort\<close> without a comparator: by code units.\<close>

fun str_le :: "string \<Rightarrow> string \<Rightarrow> bool" where
  "str_le [] ys = True"
| "str_le (x # xs) [] = False"
| "str_le (x # xs) (y # ys) =
     ((of_char x :: nat) < of_char y \<or> (x = y \<and> str_le xs ys))"

fun insert_key :: "string \<times> string \<Rightarrow> (string \<times> string) list \<Rightarrow> (string \<times> string) list" where
  "insert_key p [] = [p]"
| "insert_key p (q # qs) = (if str_le (fst q) (fst p) then q # insert_key p qs else p # q # qs)"

fun sort_keys :: "(string \<times> string) list \<Rightarrow> (string \<times> string) list" where
  "sort_keys [] = []"
| "sort_keys (p # ps) = insert_key p (sort_keys ps)"

subsection \<open>The X plugin\<close>

definition X_BASE :: string where
  "X_BASE = ''https://api.twitter.com/2''"

record oauth_creds =
  x_apiKey :: string
  x_apiSecret :: string
  x_accessToken :: string
  x_accessSecret :: string

definition x_not_configured :: js_error where
  "x_not_configured =
     Error (''X write credentials not fully configured. Run:'' @ newline @
            ''  conductor plugins config x api_key <KEY>'' @ newline @
            ''  conductor plugins config x api_secret <SECRET>'' @ newline @
            ''  conductor plugins config x access_token <TOKEN>'' @ newline @
            ''  conductor plugins config x access_secret <SECRET>'')"

text \<open>
  \<^verbatim>\<open>getOAuthCreds\<close> reads the four records (\<^verbatim>\<open>Promise.all\<close> starts the reads in this
  order) and throws when one of them is missing or empty.
\<close>

definition XPlugin_getOAuthCreds :: "plugin \<Rightarrow> world \<Rightarrow> (js_error + oauth_creds) \<times> world" where
  "XPlugin_getOAuthCreds this w =
     (case Keychain_get (keychain this) ''x'' ''api_key'' w of (api_key, w1) \<Rightarrow>
      case Keychain_get (keychain this) ''x'' ''api_secret'' w1 of (api_secret, w2) \<Rightarrow>
      case Keychain_get (keychain this) ''x'' ''access_token'' w2 of (access_token, w3) \<Rightarrow>
      case Keychain_get (keychain this) ''x'' ''access_secret'' w3 of (access_secret, w4) \<Rightarrow>
        if falsy_str api_key \<or> falsy_str api_secret \<or> falsy_str access_token \<or> falsy_str access_secret
        then (Inl x_not_configured, w4)
        else (Inr \<lparr>x_apiKey = the api_key, x_apiSecret = the api_secret,
                   x_accessToken = the access_token, x_accessSecret = the access_secret\<rparr>, w4))"

text \<open>
  \<^verbatim>\<open>buildOAuthHeader\<close> draws a nonce (\<^verbatim>\<open>crypto.randomBytes(16).toString('hex')\<close>) and reads
  the clock (\<^verbatim>\<open>Date.now()\<close>, in milliseconds); both are arguments here. The local values of
  the source are functions of their own, under the source's names.
\<close>

definition oauthParams :: "oauth_creds \<Rightarrow> string \<Rightarrow> int \<Rightarrow> (string \<times> string) list" where
  "oauthParams creds nonce now =
     [(''oauth_consumer_key'', x_apiKey creds),
      (''oauth_nonce'', nonce),
      (''oauth_signature_method'', ''HMAC-SHA1''),
      (''oauth_timestamp'', show_int (now div 1000)),
      (''oauth_token'', x_accessToken creds),
      (''oauth_version'', ''1.0'')]"

definition sortedParams :: "(string \<times> string) list \<Rightarrow> string" where
  "sortedParams allParams =
     join ''&'' (map (\<lambda>(k, v). encodeURIComponent k @ ''='' @ encodeURIComponent v) (sort_keys allParams))"

definition baseString :: "string \<Rightarrow> string \<Rightarrow> (string \<times> string) list \<Rightarrow> string" where
  "baseString method url allParams =
     join ''&'' [toUpperCase method, encodeURIComponent url, encodeURIComponent (sortedParams allParams)]"

definition signingKey :: "oauth_creds \<Rightarrow> string" where
  "signingKey creds = encodeURIComponent (x_apiSecret creds) @ ''&'' @ encodeURIComponent (x_accessSecret creds)"

definition signature :: "string \<Rightarrow> string \<Rightarrow> oauth_creds \<Rightarrow> string \<Rightarrow> int \<Rightarrow> string" where
  "signature method url creds nonce now =
     hmac_sha1_base64 (signingKey creds) (baseString method url (oauthParams creds nonce now))"

definition XPlugin_buildOAuthHeader :: "string \<Rightarrow> string \<Rightarrow> oauth_creds \<Rightarrow> string \<Rightarrow> int \<Rightarrow> string" where
  \<open>XPlugin_buildOAuthHeader method url creds nonce now =
     ''OAuth '' @
     join '', '' (map (\<lambda>(k, v). encodeURIComponent k @ ''="'' @ encodeURIComponent v @ ''"'')
                    (oauthParams creds nonce now @
                     [(''oauth_signature'', signature method url creds nonce now)]))\<close>

text \<open>
  Modelled from the spec: \<^verbatim>\<open>withRetry\<close> of the shared package, which the X plugin imports
  and which is not among the sources. The spec has it retry the call it wraps on a
  transient error (a status of 500 and above, or a network failure), up to a cap of the
  implementer's choice, which is the first argument here; the backoff between attempts is
  time and has no effect on the requests sent.
\<close>

fun transient :: "js_error \<Rightarrow> bool" where
  "transient (StatusError m st) = (500 \<le> st)"
| "transient FetchFailed = True"
| "transient e = False"

fun withRetry :: "nat \<Rightarrow> (world \<Rightarrow> (js_error + 'a) \<times> world) \<Rightarrow> world \<Rightarrow> (js_error + 'a) \<times> world" where
  "withRetry 0 f w = f w"
| "withRetry (Suc n) f w =
     (case f w of
        (Inl e, w') \<Rightarrow> if transient e then withRetry n f w' else (Inl e, w')
      | (Inr v, w') \<Rightarrow> (Inr v, w'))"

text \<open>
  The message of an X API error:
  \<^verbatim>\<open>let errStr = res.statusText;
  try { const errJSON = await res.json(); errStr = errJSON.detail ?? errJSON.title ?? res.statusText; } catch { }\<close>
\<close>

definition x_errStr :: "response \<Rightarrow> string" where
  "x_errStr res =
     (case res_json res of
        Inl e \<Rightarrow> statusText res
      | Inr errJSON \<Rightarrow>
          (case get_prop errJSON ''detail'' of
             Inl e \<Rightarrow> statusText res
           | Inr detail \<Rightarrow>
               if nullish detail
               then coalesce_str (opt_prop (Some errJSON) ''title'') (statusText res)
               else js_String (the detail)))"

definition x_post_request :: "string \<Rightarrow> string \<Rightarrow> json \<Rightarrow> request" where
  "x_post_request url authHeader body =
     \<lparr>req_url = url, req_params = [], req_method = ''POST'',
      req_headers = [(''Authorization'', authHeader), (''Content-Type'', ''application/json'')],
      req_body = Some (JsonText body)\<rparr>"

text \<open>The callback \<^verbatim>\<open>xPost\<close> hands to \<^verbatim>\<open>withRetry\<close>: one POST and the reading of its response.\<close>

definition xPost_attempt :: "network \<Rightarrow> string \<Rightarrow> string \<Rightarrow> json \<Rightarrow> world \<Rightarrow> (js_error + json) \<times> world" where
  "xPost_attempt N url authHeader body w =
     (case fetch N (x_post_request url authHeader body) w of
        (None, w1) \<Rightarrow> (Inl FetchFailed, w1)
      | (Some res, w1) \<Rightarrow>
          if \<not> ok res
          then (Inl (StatusError (''X API '' @ show_nat (status res) @ '': '' @ x_errStr res) (status res)), w1)
          else (res_json res, w1))"

text \<open>
  \<^verbatim>\<open>xPost\<close> signs once and wraps the POST in \<^verbatim>\<open>withRetry\<close>; \<open>cap\<close> is the retry cap of
  \<^verbatim>\<open>withRetry\<close>, \<open>nonce\<close> and \<open>now\<close> what the signer draws.
\<close>

definition XPlugin_xPost ::
  "network \<Rightarrow> nat \<Rightarrow> string \<Rightarrow> int \<Rightarrow> plugin \<Rightarrow> string \<Rightarrow> json \<Rightarrow> world \<Rightarrow> (js_error + json) \<times> world" where
  "XPlugin_xPost N cap nonce now this path body w =
     (case XPlugin_getOAuthCreds this w of
        (Inl e, w1) \<Rightarrow> (Inl e, w1)
      | (Inr creds, w1) \<Rightarrow>
          (let url = X_BASE @ path;
               authHeader = XPlugin_buildOAuthHeader ''POST'' url creds nonce now
           in withRetry cap (xPost_attempt N url authHeader body) w1))"

text \<open>
  A handler's result is a JavaScript object; a property whose value is \<^verbatim>\<open>undefined\<close> is
  left out of the \<^const>\<open>JObj\<close>, as it is when the result is serialised.
\<close>

definition field :: "string \<Rightarrow> json option \<Rightarrow> (string \<times> json) list" where
  "field k v = (case v of None \<Rightarrow> [] | Some x \<Rightarrow> [(k, x)])"

definition template :: "json option \<Rightarrow> string" where
  "template v = (case v of None \<Rightarrow> ''undefined'' | Some x \<Rightarrow> js_String x)"

record post_tweet_args =
  tweet_text :: string
  replyToId :: "string option"

definition x_post_tweet_handler ::
  "network \<Rightarrow> nat \<Rightarrow> string \<Rightarrow> int \<Rightarrow> plugin \<Rightarrow> post_tweet_args \<Rightarrow> world \<Rightarrow> (js_error + json) \<times> world" where
  "x_post_tweet_handler N cap nonce now this args w =
     (if 280 < length (tweet_text args)
      then (Inr (JObj [(''error'', JStr (''Tweet too long: '' @ show_nat (length (tweet_text args)) @
                                        '' chars (max 280).''))]), w)
      else
        (let body = JObj ((''text'', JStr (tweet_text args)) #
                          (if falsy_str (replyToId args) then []
                           else [(''reply'', JObj [(''in_reply_to_tweet_id'', JStr (the (replyToId args)))])]))
         in case XPlugin_xPost N cap nonce now this ''/tweets'' body w of
              (Inl e, w1) \<Rightarrow> (Inl e, w1)
            | (Inr res, w1) \<Rightarrow>
                (case get_prop res ''data'' of
                   Inl e \<Rightarrow> (Inl e, w1)
                 | Inr data \<Rightarrow>
                     (Inr (JObj ([(''posted'', JBool True)] @
                                 field ''id'' (opt_prop data ''id'') @
                                 field ''text'' (opt_prop data ''text'') @
                                 [(''url'', JStr (''https://x.com/i/web/status/'' @
                                                  template (opt_prop data ''id'')))])), w1))))"

text \<open>\<^verbatim>\<open>x_delete_tweet\<close> signs and sends its DELETE itself, outside \<^verbatim>\<open>withRetry\<close>.\<close>

definition x_delete_tweet_handler ::
  "network \<Rightarrow> string \<Rightarrow> int \<Rightarrow> plugin \<Rightarrow> string \<Rightarrow> world \<Rightarrow> (js_error + json) \<times> world" where
  "x_delete_tweet_handler N nonce now this tweetId w =
     (case XPlugin_getOAuthCreds this w of
        (Inl e, w1) \<Rightarrow> (Inl e, w1)
      | (Inr creds, w1) \<Rightarrow>
          (let url = X_BASE @ ''/tweets/'' @ tweetId;
               authHeader = XPlugin_buildOAuthHeader ''DELETE'' url creds nonce now
           in case fetch N \<lparr>req_url = url, req_params = [], req_method = ''DELETE'',
                            req_headers = [(''Authorization'', authHeader)], req_body = None\<rparr> w1 of
                (None, w2) \<Rightarrow> (Inl FetchFailed, w2)
              | (Some res, w2) \<Rightarrow>
                  if \<not> ok res
                  then (Inl (Error (''Delete failed: '' @ show_nat (status res) @ '' '' @ statusText res)), w2)
                  else
                    (case res_json res of
                       Inl e \<Rightarrow> (Inl e, w2)
                     | Inr data \<Rightarrow>
                         (case get_prop data ''data'' of
                            Inl e \<Rightarrow> (Inl e, w2)
                          | Inr d \<Rightarrow>
                              (Inr (JObj [(''deleted'', (let del = opt_prop d ''deleted''
                                                        in if nullish del then JBool True else the del)),
                                          (''tweetId'', JStr tweetId)]), w2)))))"

subsection \<open>The OAuth 1.0a signature\<close>

lemma enc_keys:
  "encodeURIComponent ''oauth_consumer_key'' = ''oauth_consumer_key''"
  "encodeURIComponent ''oauth_nonce'' = ''oauth_nonce''"
  "encodeURIComponent ''oauth_signature_method'' = ''oauth_signature_method''"
  "encodeURIComponent ''oauth_timestamp'' = ''oauth_timestamp''"
  "encodeURIComponent ''oauth_token'' = ''oauth_token''"
  "encodeURIComponent ''oauth_version'' = ''oauth_version''"
  "encodeURIComponent ''oauth_signature'' = ''oauth_signature''"
  "encodeURIComponent ''HMAC-SHA1'' = ''HMAC-SHA1''"
  "encodeURIComponent ''1.0'' = ''1.0''"
  by code_simp+

lemma sort_keys_oauth:
  "sort_keys [(''oauth_consumer_key'', a), (''oauth_nonce'', b), (''oauth_signature_method'', c),
              (''oauth_timestamp'', d), (''oauth_token'', e), (''oauth_version'', f)] =
   [(''oauth_consumer_key'', a), (''oauth_nonce'', b), (''oauth_signature_method'', c),
    (''oauth_timestamp'', d), (''oauth_token'', e), (''oauth_version'', f)]"
  by simp

text \<open>
  C4, as the code has it. The signed parameters are the six \<^verbatim>\<open>oauth_*\<close> parameters and
  no others, percent-encoded and joined in the order of their keys; the base string is the
  upper-cased method, the encoded URL and the encoded parameter string, joined by
  \<^verbatim>\<open>&\<close>; the signing key is the encoded consumer secret and the encoded token secret,
  joined by \<^verbatim>\<open>&\<close>; the signature is the base64 form of the HMAC-SHA1 of the base string
  under that key.
\<close>

theorem oauth_signature_structure:
  "sortedParams (oauthParams creds nonce now) =
     ''oauth_consumer_key='' @ encodeURIComponent (x_apiKey creds) @
     ''&oauth_nonce='' @ encodeURIComponent nonce @
     ''&oauth_signature_method=HMAC-SHA1'' @
     ''&oauth_timestamp='' @ encodeURIComponent (show_int (now div 1000)) @
     ''&oauth_token='' @ encodeURIComponent (x_accessToken creds) @
     ''&oauth_version=1.0'' \<and>
   baseString method url (oauthParams creds nonce now) =
     toUpperCase method @ ''&'' @ encodeURIComponent url @ ''&'' @
     encodeURIComponent (sortedParams (oauthParams creds nonce now)) \<and>
   signingKey creds =
     encodeURIComponent (x_apiSecret creds) @ ''&'' @ encodeURIComponent (x_accessSecret creds) \<and>
   signature method url creds nonce now =
     base64 (hmac_sha1 (utf8 (signingKey creds))
                       (utf8 (baseString method url (oauthParams creds nonce now))))"
  by (simp add: sortedParams_def oauthParams_def sort_keys_oauth enc_keys baseString_def
      signingKey_def signature_def hmac_sha1_base64_def)

text \<open>
  The credentials of the two examples of RFC 5849 (sections 1.2 and 3.1), and the nonce
  \<^verbatim>\<open>kllo9940pd9333jh\<close> of the OAuth Core 1.0 example, which is the one that starts as the
  spec's \<^verbatim>\<open>kllo...\<close> does.
\<close>

definition rfc_creds :: oauth_creds where
  "rfc_creds = \<lparr>x_apiKey = ''dpf43f3p2l4k3l03'', x_apiSecret = ''kd94hf93k423kf44'',
                 x_accessToken = ''nnch734d00sl2jdk'', x_accessSecret = ''pfkkdhi9sl3r4s00''\<rparr>"

definition rfc_creds_3_1 :: oauth_creds where
  "rfc_creds_3_1 = \<lparr>x_apiKey = ''9djdj82h48djs9d2'', x_apiSecret = ''j49sk3j29djd'',
                     x_accessToken = ''kkk9d7dh3k39sjv7'', x_accessSecret = ''dh893hdasih9''\<rparr>"

lemma signature_rfc_creds:
  "signature ''POST'' ''https://api.example.com/1/r'' rfc_creds ''kllo9940pd9333jh'' 1318622958000
     = ''XNcISOkWqxuJzT9Cd4T9ulTUJrk=''"
  by code_simp

lemma signature_rfc_creds_3_1:
  "signature ''POST'' ''https://api.example.com/1/r'' rfc_creds_3_1 ''kllo9940pd9333jh'' 1318622958000
     = ''pkd/wx+tAVRWKAwzDR4i+hz1itg=''"
  by code_simp

text \<open>
  C4 as the spec states it fails: for the method, URL and timestamp it names, with the nonce
  \<^verbatim>\<open>kllo9940pd9333jh\<close> and the credentials of either example of RFC 5849, the signature
  is not \<^verbatim>\<open>tnnArxj06cWHq44gCs1OSKk/jLY=\<close>.
\<close>

theorem oauth_signature_value_counterexample:
  "signature ''POST'' ''https://api.example.com/1/r'' rfc_creds ''kllo9940pd9333jh'' 1318622958000
     \<noteq> ''tnnArxj06cWHq44gCs1OSKk/jLY='' \<and>
   signature ''POST'' ''https://api.example.com/1/r'' rfc_creds_3_1 ''kllo9940pd9333jh'' 1318622958000
     \<noteq> ''tnnArxj06cWHq44gCs1OSKk/jLY=''"
  unfolding signature_rfc_creds signature_rfc_creds_3_1 by simp

subsection \<open>Tweets longer than 280 characters\<close>

text \<open>
  C9. A text longer than 280 characters makes the \<^verbatim>\<open>x_post_tweet\<close> handler return an
  object with an \<^verbatim>\<open>error\<close> field and leave the world as it was: no keychain read and no
  request. A call that did anything had a text of at most 280 characters.
\<close>

theorem x_post_tweet_too_long:
  "(280 < length (tweet_text args) \<longrightarrow>
      x_post_tweet_handler N cap nonce now this args w =
        (Inr (JObj [(''error'', JStr (''Tweet too long: '' @ show_nat (length (tweet_text args)) @
                                     '' chars (max 280).''))]), w)) \<and>
   (trace (snd (x_post_tweet_handler N cap nonce now this args w)) \<noteq> trace w \<longrightarrow>
      length (tweet_text args) \<le> 280)"
  by (auto simp: x_post_tweet_handler_def)

theorem x_post_tweet_too_long_witness:
  "x_post_tweet_handler (\<lambda>h r. None) 3 ''6e6f6e6365'' 1318622958000 (initialize ''/cfg'')
     \<lparr>tweet_text = replicate 281 CHR ''a'', replyToId = None\<rparr> (world_of []) =
     (Inr (JObj [(''error'', JStr ''Tweet too long: 281 chars (max 280).'')]), world_of [])"
proof -
  have l: "280 < length (tweet_text \<lparr>tweet_text = replicate 281 CHR ''a'', replyToId = None\<rparr>)" by simp
  have s: "show_nat 281 = ''281''" by code_simp
  from x_post_tweet_too_long[of "\<lparr>tweet_text = replicate 281 CHR ''a'', replyToId = None\<rparr>"
      "\<lambda>h r. None" 3 "''6e6f6e6365''" 1318622958000 "initialize ''/cfg''" "world_of []"] l s
  show ?thesis by simp
qed

subsection \<open>Which envelopes repeat a request\<close>

definition sent :: "world \<Rightarrow> nat" where
  "sent w = length (requests (trace w))"

lemma sent_Keychain_get: "sent (snd (Keychain_get kc s k w)) = sent w"
  by (cases kc) (simp add: sent_def requests_append)

lemma sent_fetch: "sent (snd (fetch N r w)) = sent w + 1"
  by (simp add: fetch_def sent_def requests_append)

lemma sent_getOAuthCreds: "sent (snd (XPlugin_getOAuthCreds this w)) = sent w"
  by (cases "keychain this") (simp add: XPlugin_getOAuthCreds_def sent_def requests_append)

lemma sent_xPost_attempt: "sent (snd (xPost_attempt N url h b w)) = sent w + 1"
  by (simp add: xPost_attempt_def fetch_def sent_def requests_append split: option.splits)

lemma sent_withRetry_le:
  assumes "\<And>w. sent (snd (f w)) = sent w + 1"
  shows "sent (snd (withRetry n f w)) \<le> sent w + n + 1"
proof (induction n arbitrary: w)
  case 0
  then show ?case using assms by simp
next
  case (Suc n)
  obtain r w' where f: "f w = (r, w')" by (cases "f w")
  have s: "sent w' = sent w + 1" using assms[of w] f by simp
  show ?case using Suc[of w'] s f by (cases r) auto
qed

lemma sent_withRetry_failing:
  assumes "\<And>w. sent (snd (f w)) = sent w + 1"
    and "\<And>w. \<exists>e. fst (f w) = Inl e \<and> transient e"
  shows "sent (snd (withRetry n f w)) = sent w + n + 1"
proof (induction n arbitrary: w)
  case 0
  then show ?case using assms(1) by simp
next
  case (Suc n)
  obtain r w' where f: "f w = (r, w')" by (cases "f w")
  obtain e where e: "r = Inl e" "transient e" using assms(2)[of w] f by auto
  have s: "sent w' = sent w + 1" using assms(1)[of w] f by simp
  show ?case using Suc[of w'] s f e by simp
qed

lemma xPost_attempt_failing:
  assumes "\<And>h r. \<exists>res. N h r = Some res \<and> 500 \<le> status res"
  shows "\<exists>e. fst (xPost_attempt N url h b w) = Inl e \<and> transient e"
proof -
  obtain res where r: "N (requests (trace w)) (x_post_request url h b) = Some res" "500 \<le> status res"
    using assms by blast
  then show ?thesis by (simp add: xPost_attempt_def fetch_def ok_def)
qed

lemma sent_xPost_le: "sent (snd (XPlugin_xPost N cap nonce now this path body w)) \<le> sent w + cap + 1"
proof (cases "XPlugin_getOAuthCreds this w")
  case (Pair r w1)
  have s: "sent w1 = sent w" using sent_getOAuthCreds[of this w] Pair by simp
  show ?thesis
  proof (cases r)
    case (Inl e)
    then show ?thesis using Pair s by (simp add: XPlugin_xPost_def)
  next
    case (Inr creds)
    then show ?thesis
      using Pair s sent_withRetry_le[where f="xPost_attempt N (X_BASE @ path)
          (XPlugin_buildOAuthHeader ''POST'' (X_BASE @ path) creds nonce now) body" and n=cap and w=w1,
          OF sent_xPost_attempt]
      by (simp add: XPlugin_xPost_def Let_def)
  qed
qed

lemma sent_xPost_failing:
  assumes "\<And>h r. \<exists>res. N h r = Some res \<and> 500 \<le> status res"
    and "fst (XPlugin_getOAuthCreds this w) = Inr creds"
  shows "sent (snd (XPlugin_xPost N cap nonce now this path body w)) = sent w + cap + 1"
proof (cases "XPlugin_getOAuthCreds this w")
  case (Pair r w1)
  have s: "sent w1 = sent w" using sent_getOAuthCreds[of this w] Pair by simp
  have r: "r = Inr creds" using assms(2) Pair by simp
  show ?thesis
    using Pair r s sent_withRetry_failing[where f="xPost_attempt N (X_BASE @ path)
        (XPlugin_buildOAuthHeader ''POST'' (X_BASE @ path) creds nonce now) body" and n=cap and w=w1,
        OF sent_xPost_attempt xPost_attempt_failing[where N=N, OF assms(1)]]
    by (simp add: XPlugin_xPost_def Let_def)
qed

lemma sent_x_delete_tweet: "sent (snd (x_delete_tweet_handler N nonce now this tweetId w)) \<le> sent w + 1"
proof (cases "XPlugin_getOAuthCreds this w")
  case (Pair r w1)
  have s: "sent w1 = sent w" using sent_getOAuthCreds[of this w] Pair by simp
  show ?thesis
    using Pair s
    by (cases r)
       (auto simp: x_delete_tweet_handler_def Let_def fetch_def sent_def requests_append
          split: option.splits sum.splits)
qed

lemma sent_gmailFetch: "sent (snd (GmailPlugin_gmailFetch N this path opts w)) \<le> sent w + 1"
  by (cases "keychain this")
     (auto simp: GmailPlugin_gmailFetch_def GmailPlugin_getToken_def fetch_def sent_def requests_append
        split: option.splits)

lemma sent_calFetch: "sent (snd (GoogleCalendarPlugin_calFetch N this path opts w)) \<le> sent w + 1"
  by (cases "keychain this")
     (auto simp: GoogleCalendarPlugin_calFetch_def GoogleCalendarPlugin_getToken_def fetch_def sent_def
        requests_append split: option.splits)

lemma sent_n8nFetch: "sent (snd (N8nPlugin_n8nFetch N U this path opts w)) \<le> sent w + 1"
  by (cases "keychain this")
     (auto simp: N8nPlugin_n8nFetch_def N8nPlugin_getConfig_def fetch_def sent_def requests_append Let_def
        split: option.splits sum.splits)

lemma api_calls_spotifyFetch:
  "api_calls (snd (SpotifyPlugin_spotifyFetch N this path opts retry w)) \<le> api_calls w + 2"
proof -
  obtain dir where kc: "keychain this = Keychain dir" by (cases "keychain this") auto
  obtain r w1 where b: "spotifyFetch_begin N this path opts w = (r, w1)"
    by (cases "spotifyFetch_begin N this path opts w")
  have b1: "api_calls w1 \<le> api_calls w + 1"
    using b kc
    by (auto simp: spotifyFetch_begin_def SpotifyPlugin_getToken_def fetch_def api_calls_def requests_append
        split: option.splits if_splits)
  have "api_calls (snd (spotifyFetch_finish N this path opts retry r w1)) \<le> api_calls w1 + 1"
  proof (cases r)
    case (Inl e)
    then show ?thesis by (simp add: spotifyFetch_finish_def)
  next
    case (Inr res)
    obtain t w3 where rf: "SpotifyPlugin_refreshToken N this w1 = (t, w3)"
      by (cases "SpotifyPlugin_refreshToken N this w1")
    have a3: "api_calls w3 = api_calls w1" using api_calls_refreshToken[where N=N, OF kc, of w1] rf by simp
    have nr: "api_calls (snd (SpotifyPlugin_spotifyFetch N this path opts False w3)) \<le> api_calls w3 + 1"
      by (simp add: api_calls_no_retry[OF kc])
    show ?thesis
      using Inr rf a3 nr
      by (cases t) (auto simp: spotifyFetch_finish_def spotifyFetch_resume_def)
  qed
  then show ?thesis using b b1 by (simp add: spotifyFetch_begin_finish)
qed

text \<open>
  C6, as the code has it. Per logical call, \<^verbatim>\<open>gmailFetch\<close>, \<^verbatim>\<open>calFetch\<close>, \<^verbatim>\<open>n8nFetch\<close> and the
  \<^verbatim>\<open>x_delete_tweet\<close> handler send at most one request, whatever its method, and
  \<^verbatim>\<open>spotifyFetch\<close> sends at most two to the API, the second being the retry after a refresh.
  \<^verbatim>\<open>xPost\<close> is different: it runs its POST inside \<^verbatim>\<open>withRetry\<close>, so it sends up to one more
  than the cap of \<^verbatim>\<open>withRetry\<close>, and exactly that many when the server keeps answering with
  a status of 500 or above.
\<close>

theorem retries_by_envelope:
  "sent (snd (GmailPlugin_gmailFetch N this path opts w)) \<le> sent w + 1 \<and>
   sent (snd (GoogleCalendarPlugin_calFetch N this path opts w)) \<le> sent w + 1 \<and>
   sent (snd (N8nPlugin_n8nFetch N U this path opts w)) \<le> sent w + 1 \<and>
   api_calls (snd (SpotifyPlugin_spotifyFetch N this path opts retry w)) \<le> api_calls w + 2 \<and>
   sent (snd (x_delete_tweet_handler N nonce now this tweetId w)) \<le> sent w + 1 \<and>
   sent (snd (XPlugin_xPost N cap nonce now this path body w)) \<le> sent w + cap + 1 \<and>
   ((\<forall>h r. \<exists>res. N h r = Some res \<and> 500 \<le> status res) \<and>
    (\<exists>creds. fst (XPlugin_getOAuthCreds this w) = Inr creds) \<longrightarrow>
      sent (snd (XPlugin_xPost N cap nonce now this path body w)) = sent w + cap + 1)"
proof (intro conjI impI)
  assume a: "(\<forall>h r. \<exists>res. N h r = Some res \<and> 500 \<le> status res) \<and>
    (\<exists>creds. fst (XPlugin_getOAuthCreds this w) = Inr creds)"
  then obtain creds where c: "fst (XPlugin_getOAuthCreds this w) = Inr creds" by blast
  from a have n: "\<And>h r. \<exists>res. N h r = Some res \<and> 500 \<le> status res" by blast
  show "sent (snd (XPlugin_xPost N cap nonce now this path body w)) = sent w + cap + 1"
    by (rule sent_xPost_failing[where N=N, OF n c])
qed (rule sent_gmailFetch sent_calFetch sent_n8nFetch api_calls_spotifyFetch sent_x_delete_tweet
    sent_xPost_le)+

definition unavailable :: response where
  "unavailable = \<lparr>status = 503, statusText = ''Service Unavailable'', body_text = [], body_json = None\<rparr>"

definition created :: response where
  \<open>created = \<lparr>status = 201, statusText = ''Created'', body_text = ''{"data":{"id":"1","text":"hi"}}'',
               body_json = Some (JObj [(''data'', JObj [(''id'', JStr ''1''), (''text'', JStr ''hi'')])])\<rparr>\<close>

text \<open>A world that holds the four write credentials of the X plugin.\<close>

definition x_world :: world where
  "x_world = world_of [((''x'', ''api_key''), ''K''), ((''x'', ''api_secret''), ''S''),
                       ((''x'', ''access_token''), ''T''), ((''x'', ''access_secret''), ''U'')]"

definition x_creds :: oauth_creds where
  "x_creds = \<lparr>x_apiKey = ''K'', x_apiSecret = ''S'', x_accessToken = ''T'', x_accessSecret = ''U''\<rparr>"

lemma x_world_creds: "fst (XPlugin_getOAuthCreds (initialize ''/cfg'') x_world) = Inr x_creds"
  by (simp add: XPlugin_getOAuthCreds_def initialize_def x_world_def world_of_def falsy_str_def x_creds_def)

theorem retries_by_envelope_witness:
  "sent (snd (XPlugin_xPost (\<lambda>h r. Some unavailable) 2 ''6e6f6e6365'' 1318622958000 (initialize ''/cfg'')
                ''/tweets'' (JObj [(''text'', JStr ''hi'')]) x_world)) = 3"
proof -
  have n: "\<forall>h r. \<exists>res. (\<lambda>h r. Some unavailable) h r = Some res \<and> 500 \<le> status res"
    by (simp add: unavailable_def)
  have c: "\<exists>creds. fst (XPlugin_getOAuthCreds (initialize ''/cfg'') x_world) = Inr creds"
    using x_world_creds by blast
  have z: "sent x_world = 0" by (simp add: sent_def x_world_def world_of_def)
  from retries_by_envelope[where N="\<lambda>h r. Some unavailable" and this="initialize ''/cfg''"
      and path="''/tweets''" and opts=no_options and w=x_world and retry=True and nonce="''6e6f6e6365''"
      and now=1318622958000 and tweetId="''1''" and cap=2 and body="JObj [(''text'', JStr ''hi'')]"
      and U=example_parser] n c z
  show ?thesis by simp
qed

text \<open>
  C6 as the spec states it fails for \<^verbatim>\<open>x_post_tweet\<close>: when the first answer is 503 and
  \<^verbatim>\<open>withRetry\<close> allows one retry, the handler sends the same signed POST twice and reports
  the tweet as posted.
\<close>

definition flaky_network :: network where
  "flaky_network hist req = (if hist = [] then Some unavailable else Some created)"

theorem x_post_tweet_retried_counterexample:
  "requests (trace (snd (x_post_tweet_handler flaky_network (Suc 0) ''6e6f6e6365'' 1318622958000
                           (initialize ''/cfg'') \<lparr>tweet_text = ''hi'', replyToId = None\<rparr> x_world))) =
     [x_post_request (X_BASE @ ''/tweets'')
        (XPlugin_buildOAuthHeader ''POST'' (X_BASE @ ''/tweets'') x_creds ''6e6f6e6365'' 1318622958000)
        (JObj [(''text'', JStr ''hi'')]),
      x_post_request (X_BASE @ ''/tweets'')
        (XPlugin_buildOAuthHeader ''POST'' (X_BASE @ ''/tweets'') x_creds ''6e6f6e6365'' 1318622958000)
        (JObj [(''text'', JStr ''hi'')])] \<and>
   fst (x_post_tweet_handler flaky_network (Suc 0) ''6e6f6e6365'' 1318622958000
          (initialize ''/cfg'') \<lparr>tweet_text = ''hi'', replyToId = None\<rparr> x_world) =
     Inr (JObj [(''posted'', JBool True), (''id'', JStr ''1''), (''text'', JStr ''hi''),
                (''url'', JStr ''https://x.com/i/web/status/1'')])"
  by (simp add: x_post_tweet_handler_def XPlugin_xPost_def XPlugin_getOAuthCreds_def initialize_def
      x_world_def world_of_def falsy_str_def x_creds_def Let_def xPost_attempt_def fetch_def
      flaky_network_def unavailable_def created_def ok_def res_json_def field_def template_def
      requests_append)


subsection \<open>Tool definitions and approval\<close>

text \<open>
  What \<^verbatim>\<open>getTools()\<close> declares of a tool, apart from its schema and handler: its name and
  its \<^verbatim>\<open>requiresApproval\<close> property, \<^const>\<open>None\<close> where the definition does not set it.
  The handlers are functions of their own below.
\<close>

record tool =
  name :: string
  requiresApproval :: "bool option"

definition GmailPlugin_getTools :: "tool list" where
  "GmailPlugin_getTools =
     [\<lparr>name = ''gmail_list'', requiresApproval = None\<rparr>,
      \<lparr>name = ''gmail_read'', requiresApproval = None\<rparr>,
      \<lparr>name = ''gmail_search'', requiresApproval = None\<rparr>,
      \<lparr>name = ''gmail_send'', requiresApproval = None\<rparr>,
      \<lparr>name = ''gmail_reply'', requiresApproval = None\<rparr>,
      \<lparr>name = ''gmail_mark_read'', requiresApproval = None\<rparr>,
      \<lparr>name = ''gmail_trash'', requiresApproval = None\<rparr>]"

definition GoogleCalendarPlugin_getTools :: "tool list" where
  "GoogleCalendarPlugin_getTools =
     [\<lparr>name = ''gcal_list_calendars'', requiresApproval = None\<rparr>,
      \<lparr>name = ''gcal_list_events'', requiresApproval = None\<rparr>,
      \<lparr>name = ''gcal_get_event'', requiresApproval = None\<rparr>,
      \<lparr>name = ''gcal_create_event'', requiresApproval = None\<rparr>,
      \<lparr>name = ''gcal_update_event'', requiresApproval = None\<rparr>,
      \<lparr>name = ''gcal_delete_event'', requiresApproval = None\<rparr>]"

definition N8nPlugin_getTools :: "tool list" where
  "N8nPlugin_getTools =
     [\<lparr>name = ''n8n_workflows'', requiresApproval = None\<rparr>,
      \<lparr>name = ''n8n_workflow'', requiresApproval = None\<rparr>,
      \<lparr>name = ''n8n_activate'', requiresApproval = None\<rparr>,
      \<lparr>name = ''n8n_trigger'', requiresApproval = None\<rparr>,
      \<lparr>name = ''n8n_webhook'', requiresApproval = None\<rparr>,
      \<lparr>name = ''n8n_executions'', requiresApproval = None\<rparr>,
      \<lparr>name = ''n8n_execution'', requiresApproval = None\<rparr>,
      \<lparr>name = ''n8n_retry'', requiresApproval = None\<rparr>,
      \<lparr>name = ''n8n_delete_execution'', requiresApproval = None\<rparr>,
      \<lparr>name = ''n8n_credentials'', requiresApproval = None\<rparr>,
      \<lparr>name = ''n8n_tags'', requiresApproval = None\<rparr>,
      \<lparr>name = ''n8n_health'', requiresApproval = None\<rparr>]"

definition XPlugin_getTools :: "tool list" where
  "XPlugin_getTools =
     [\<lparr>name = ''x_search'', requiresApproval = None\<rparr>,
      \<lparr>name = ''x_get_user'', requiresApproval = None\<rparr>,
      \<lparr>name = ''x_get_timeline'', requiresApproval = None\<rparr>,
      \<lparr>name = ''x_post_tweet'', requiresApproval = Some True\<rparr>,
      \<lparr>name = ''x_delete_tweet'', requiresApproval = Some True\<rparr>,
      \<lparr>name = ''x_like_tweet'', requiresApproval = Some True\<rparr>]"

text \<open>The host gates a tool when the property is \<^verbatim>\<open>true\<close>; an absent property counts as \<^verbatim>\<open>false\<close>.\<close>

definition gated :: "tool list \<Rightarrow> string \<Rightarrow> bool" where
  "gated tools n = (\<exists>t \<in> set tools. name t = n \<and> requiresApproval t = Some True)"

text \<open>
  \<^verbatim>\<open>encodeEmail\<close>: the header lines that are present and the body, joined by CR LF, then
  base64 with \<^verbatim>\<open>+\<close> and \<^verbatim>\<open>/\<close> replaced by \<^verbatim>\<open>-\<close> and \<^verbatim>\<open>_\<close>.
\<close>

record email =
  mail_to :: string
  mail_subject :: string
  mail_body :: string
  mail_cc :: "string option"
  mail_inReplyTo :: "string option"

definition crlf :: string where
  "crlf = char_of (13::nat) # newline"

definition GmailPlugin_encodeEmail :: "email \<Rightarrow> string" where
  "GmailPlugin_encodeEmail opts =
     (let lines = join crlf
            ([''To: '' @ mail_to opts, ''Subject: '' @ mail_subject opts] @
             (if falsy_str (mail_cc opts) then [] else [''Cc: '' @ the (mail_cc opts)]) @
             (if falsy_str (mail_inReplyTo opts) then [] else [''In-Reply-To: '' @ the (mail_inReplyTo opts)]) @
             [''Content-Type: text/plain; charset=UTF-8'', '''', mail_body opts])
      in map (\<lambda>c. if c = CHR ''+'' then CHR ''-'' else if c = CHR ''/'' then CHR ''_'' else c)
             (base64 (utf8 lines)))"

text \<open>The handler of \<^verbatim>\<open>gmail_send\<close>: one POST to \<^verbatim>\<open>/messages/send\<close>.\<close>

definition gmail_send_handler ::
  "network \<Rightarrow> plugin \<Rightarrow> string \<Rightarrow> string \<Rightarrow> string \<Rightarrow> string option \<Rightarrow> world \<Rightarrow> (js_error + json) \<times> world" where
  "gmail_send_handler N this to subject body cc w =
     (let raw = GmailPlugin_encodeEmail
                  \<lparr>mail_to = to, mail_subject = subject, mail_body = body, mail_cc = cc, mail_inReplyTo = None\<rparr>
      in case GmailPlugin_gmailFetch N this ''/messages/send''
                \<lparr>opt_method = Some ''POST'', opt_body = Some (JObj [(''raw'', JStr raw)]), opt_params = None\<rparr> w of
           (Inl e, w1) \<Rightarrow> (Inl e, w1)
         | (Inr result, w1) \<Rightarrow>
             (case get_prop result ''id'' of
                Inl e \<Rightarrow> (Inl e, w1)
              | Inr i \<Rightarrow>
                  (Inr (JObj ([(''sent'', JBool True)] @ field ''messageId'' i @
                              field ''threadId'' (opt_prop (Some result) ''threadId''))), w1)))"

text \<open>The handler of \<^verbatim>\<open>gcal_delete_event\<close>: one DELETE of the event; \<^verbatim>\<open>calendarId\<close> defaults to \<^verbatim>\<open>primary\<close>.\<close>

definition gcal_delete_event_handler ::
  "network \<Rightarrow> plugin \<Rightarrow> string \<Rightarrow> string option \<Rightarrow> world \<Rightarrow> (js_error + json) \<times> world" where
  "gcal_delete_event_handler N this eventId calendarId w =
     (case GoogleCalendarPlugin_calFetch N this
             (''/calendars/'' @ encodeURIComponent (case calendarId of None \<Rightarrow> ''primary'' | Some c \<Rightarrow> c) @
              ''/events/'' @ encodeURIComponent eventId)
             \<lparr>opt_method = Some ''DELETE'', opt_body = None, opt_params = None\<rparr> w of
        (Inl e, w1) \<Rightarrow> (Inl e, w1)
      | (Inr r, w1) \<Rightarrow> (Inr (JObj [(''deleted'', JBool True), (''eventId'', JStr eventId)]), w1))"

text \<open>The handler of \<^verbatim>\<open>n8n_delete_execution\<close>: one DELETE of the execution.\<close>

definition n8n_delete_execution_handler ::
  "network \<Rightarrow> url_parser \<Rightarrow> plugin \<Rightarrow> string \<Rightarrow> world \<Rightarrow> (js_error + json) \<times> world" where
  "n8n_delete_execution_handler N U this executionId w =
     (case N8nPlugin_n8nFetch N U this (''/executions/'' @ executionId)
             \<lparr>opt_method = Some ''DELETE'', opt_body = None, opt_params = None\<rparr> w of
        (Inl e, w1) \<Rightarrow> (Inl e, w1)
      | (Inr r, w1) \<Rightarrow> (Inr (JObj [(''deleted'', JBool True), (''executionId'', JStr executionId)]), w1))"

lemma encodeEmail_example:
  "GmailPlugin_encodeEmail \<lparr>mail_to = ''a@example.com'', mail_subject = ''Hi'', mail_body = ''Hello'',
      mail_cc = None, mail_inReplyTo = None\<rparr> =
   ''VG86IGFAZXhhbXBsZS5jb20NClN1YmplY3Q6IEhpDQpDb250ZW50LVR5cGU6IHRleHQvcGxhaW47IGNoYXJzZXQ9VVRGLTgNCg0KSGVsbG8=''"
  by code_simp

text \<open>
  C1 fails on the code. With credentials stored, the three handlers send a POST or a
  DELETE, and none of the three tool definitions sets \<^verbatim>\<open>requiresApproval\<close>; the tools of the
  X plugin that write do set it.
\<close>

theorem mutating_tools_not_gated:
  "map req_method (requests (trace (snd (gmail_send_handler (\<lambda>h r. Some no_content) (initialize ''/cfg'')
       ''a@example.com'' ''Hi'' ''Hello'' None all_credentials)))) = [''POST''] \<and>
   \<not> gated GmailPlugin_getTools ''gmail_send'' \<and>
   map req_method (requests (trace (snd (gcal_delete_event_handler (\<lambda>h r. Some no_content) (initialize ''/cfg'')
       ''e1'' None all_credentials)))) = [''DELETE''] \<and>
   \<not> gated GoogleCalendarPlugin_getTools ''gcal_delete_event'' \<and>
   map req_method (requests (trace (snd (n8n_delete_execution_handler (\<lambda>h r. Some no_content) example_parser (initialize ''/cfg'')
       ''42'' all_credentials)))) = [''DELETE''] \<and>
   \<not> gated N8nPlugin_getTools ''n8n_delete_execution'' \<and>
   gated XPlugin_getTools ''x_post_tweet'' \<and> gated XPlugin_getTools ''x_delete_tweet''"
  by (simp add: gmail_send_handler_def gcal_delete_event_handler_def n8n_delete_execution_handler_def
      GmailPlugin_gmailFetch_def GoogleCalendarPlugin_calFetch_def N8nPlugin_n8nFetch_def
      GmailPlugin_getToken_def GoogleCalendarPlugin_getToken_def N8nPlugin_getConfig_def
      n8n_request_def google_request_def method_of_def fetch_def initialize_def all_credentials_def
      world_of_def no_content_def ok_def res_json_def requests_append Let_def
      example_parser_def normaliseBaseUrl_def stripTrailingSlash_def endsWith_def params_of_def
      n8n_result_def
      gated_def GmailPlugin_getTools_def GoogleCalendarPlugin_getTools_def N8nPlugin_getTools_def
      XPlugin_getTools_def)

end
